theory Spec2Isabelle
  imports Complex_Main
begin

section \<open>JavaScript numbers\<close>

text \<open>
  The program computes with JavaScript numbers. A finite number is modelled by the real
  it denotes (rounding and overflow of finite arithmetic are not modelled), next to the
  three special values the code guards against or produces: the two infinities and NaN.
  A zero has no sign here: it behaves as the positive zero. Where the exact value of an
  expression lies within a rounding error of a half, \<^verbatim>\<open>Math.round\<close> of the code can
  differ by one from \<open>Math_round\<close> here; the statements about the diversification score
  below either do not depend on the value of a finite result, or evaluate inputs whose
  figures are exact in binary floating point.
\<close>

datatype jsnum = Num real | PInf | NInf | NaN

fun jadd :: "jsnum \<Rightarrow> jsnum \<Rightarrow> jsnum" where
  "jadd NaN y = NaN"
| "jadd x NaN = NaN"
| "jadd (Num a) (Num b) = Num (a + b)"
| "jadd PInf NInf = NaN"
| "jadd NInf PInf = NaN"
| "jadd PInf y = PInf"
| "jadd x PInf = PInf"
| "jadd NInf y = NInf"
| "jadd x NInf = NInf"

fun jneg :: "jsnum \<Rightarrow> jsnum" where
  "jneg (Num a) = Num (- a)"
| "jneg PInf = NInf"
| "jneg NInf = PInf"
| "jneg NaN = NaN"

definition jsub :: "jsnum \<Rightarrow> jsnum \<Rightarrow> jsnum" where
  "jsub x y = jadd x (jneg y)"

fun jmul :: "jsnum \<Rightarrow> jsnum \<Rightarrow> jsnum" where
  "jmul NaN y = NaN"
| "jmul x NaN = NaN"
| "jmul (Num a) (Num b) = Num (a * b)"
| "jmul (Num a) PInf = (if 0 < a then PInf else if a < 0 then NInf else NaN)"
| "jmul (Num a) NInf = (if 0 < a then NInf else if a < 0 then PInf else NaN)"
| "jmul PInf (Num b) = (if 0 < b then PInf else if b < 0 then NInf else NaN)"
| "jmul NInf (Num b) = (if 0 < b then NInf else if b < 0 then PInf else NaN)"
| "jmul PInf PInf = PInf"
| "jmul PInf NInf = NInf"
| "jmul NInf PInf = NInf"
| "jmul NInf NInf = PInf"

fun jdiv :: "jsnum \<Rightarrow> jsnum \<Rightarrow> jsnum" where
  "jdiv NaN y = NaN"
| "jdiv x NaN = NaN"
| "jdiv (Num a) (Num b) =
     (if b \<noteq> 0 then Num (a / b)
      else if 0 < a then PInf else if a < 0 then NInf else NaN)"
| "jdiv (Num a) PInf = Num 0"
| "jdiv (Num a) NInf = Num 0"
| "jdiv PInf (Num b) = (if 0 \<le> b then PInf else NInf)"
| "jdiv NInf (Num b) = (if 0 \<le> b then NInf else PInf)"
| "jdiv PInf PInf = NaN"
| "jdiv PInf NInf = NaN"
| "jdiv NInf PInf = NaN"
| "jdiv NInf NInf = NaN"

text \<open>Comparisons: every comparison with NaN is false.\<close>

fun jlt :: "jsnum \<Rightarrow> jsnum \<Rightarrow> bool" where
  "jlt NaN y = False"
| "jlt x NaN = False"
| "jlt (Num a) (Num b) = (a < b)"
| "jlt PInf y = False"
| "jlt x PInf = True"
| "jlt NInf NInf = False"
| "jlt NInf (Num b) = True"
| "jlt (Num a) NInf = False"

definition jgt :: "jsnum \<Rightarrow> jsnum \<Rightarrow> bool" where
  "jgt x y = jlt y x"

definition jle :: "jsnum \<Rightarrow> jsnum \<Rightarrow> bool" where
  "jle x y = (jlt x y \<or> (x = y \<and> x \<noteq> NaN))"

definition jge :: "jsnum \<Rightarrow> jsnum \<Rightarrow> bool" where
  "jge x y = jle y x"

text \<open>\<^verbatim>\<open>Math.max\<close>, \<^verbatim>\<open>Math.min\<close>, \<^verbatim>\<open>Math.abs\<close>, \<^verbatim>\<open>Math.round\<close>, \<^verbatim>\<open>Math.sqrt\<close>.\<close>

definition Math_max :: "jsnum \<Rightarrow> jsnum \<Rightarrow> jsnum" where
  "Math_max x y = (if x = NaN \<or> y = NaN then NaN else if jlt x y then y else x)"

definition Math_min :: "jsnum \<Rightarrow> jsnum \<Rightarrow> jsnum" where
  "Math_min x y = (if x = NaN \<or> y = NaN then NaN else if jlt y x then y else x)"

fun Math_abs :: "jsnum \<Rightarrow> jsnum" where
  "Math_abs (Num a) = Num \<bar>a\<bar>"
| "Math_abs PInf = PInf"
| "Math_abs NInf = PInf"
| "Math_abs NaN = NaN"

fun Math_round :: "jsnum \<Rightarrow> jsnum" where
  "Math_round (Num a) = Num (of_int \<lfloor>a + 1 / 2\<rfloor>)"
| "Math_round PInf = PInf"
| "Math_round NInf = NInf"
| "Math_round NaN = NaN"

fun Math_sqrt :: "jsnum \<Rightarrow> jsnum" where
  "Math_sqrt (Num a) = (if a < 0 then NaN else Num (sqrt a))"
| "Math_sqrt PInf = PInf"
| "Math_sqrt NInf = NaN"
| "Math_sqrt NaN = NaN"

text \<open>
  \<^verbatim>\<open>typeof v === 'number' && !isNaN(v) ? v : d\<close> on a field of type number, and the
  truthiness of a number as \<^verbatim>\<open>||\<close> reads it (zero and NaN are falsy).
\<close>

definition isNaN :: "jsnum \<Rightarrow> bool" where
  "isNaN x = (x = NaN)"

definition safeNumber :: "jsnum \<Rightarrow> jsnum \<Rightarrow> jsnum" where
  "safeNumber v defaultValue = (if \<not> isNaN v then v else defaultValue)"

definition falsy :: "jsnum \<Rightarrow> bool" where
  "falsy x = (x = Num 0 \<or> x = NaN)"

definition or_else :: "jsnum \<Rightarrow> jsnum \<Rightarrow> jsnum" where
  "or_else x d = (if falsy x then d else x)"

text \<open>\<^verbatim>\<open>xs.reduce((sum, x) => sum + f(x), 0)\<close>.\<close>

definition reduce_sum :: "('a \<Rightarrow> jsnum) \<Rightarrow> 'a list \<Rightarrow> jsnum" where
  "reduce_sum f xs = foldl (\<lambda>sum x. jadd sum (f x)) (Num 0) xs"

section \<open>Strings\<close>

text \<open>\<^verbatim>\<open>toLowerCase\<close> on the ASCII letters, \<^verbatim>\<open>String.includes\<close> and \<^verbatim>\<open>Array.includes\<close>.\<close>

definition lower_char :: "char \<Rightarrow> char" where
  "lower_char c =
     (case map_of (zip ''ABCDEFGHIJKLMNOPQRSTUVWXYZ'' ''abcdefghijklmnopqrstuvwxyz'') c of
        Some l \<Rightarrow> l
      | None \<Rightarrow> c)"

definition toLowerCase :: "string \<Rightarrow> string" where
  "toLowerCase s = map lower_char s"

fun startsWith :: "string \<Rightarrow> string \<Rightarrow> bool" where
  "startsWith s [] = True"
| "startsWith [] (p # ps) = False"
| "startsWith (c # cs) (p # ps) = (c = p \<and> startsWith cs ps)"

fun str_includes :: "string \<Rightarrow> string \<Rightarrow> bool" where
  "str_includes [] p = (p = [])"
| "str_includes (c # cs) p = (startsWith (c # cs) p \<or> str_includes cs p)"

definition some :: "'a list \<Rightarrow> ('a \<Rightarrow> bool) \<Rightarrow> bool" where
  "some xs P = list_ex P xs"

definition arr_includes :: "'a list \<Rightarrow> 'a \<Rightarrow> bool" where
  "arr_includes xs x = (x \<in> set xs)"

section \<open>Liquidity pairs: the risk score\<close>

record Token =
  tok_address :: string
  tok_symbol :: string
  tok_name :: string
  tok_decimals :: jsnum
  tok_price :: jsnum

record PairReward =
  pr_symbol :: string
  pr_address :: string
  pr_rewardRate :: jsnum
  pr_price :: jsnum

datatype RiskLevel = low | medium | high

record LiquidityPair =
  pairAddress :: string
  token0 :: Token
  token1 :: Token
  pair_protocol :: string
  pair_tvl :: jsnum
  pair_apr :: jsnum
  pair_rewardTokens :: "PairReward list"
  riskLevel :: RiskLevel
  farmUrl :: string
  swapUrl :: string
  fee :: jsnum
  volume24h :: jsnum
  volumeChange7d :: jsnum

definition stablecoins :: "string list" where
  "stablecoins = [''USDC'', ''DAI'', ''USDT'', ''BUSD'', ''USDP'', ''TUSD'', ''FRAX'', ''LUSD'']"

definition blueChipTokens :: "string list" where
  "blueChipTokens = [''WETH'', ''WBTC'', ''WMATIC'', ''LINK'', ''AAVE'', ''UNI'', ''MKR'']"

definition topTierProtocols :: "string list" where
  "topTierProtocols = [''Curve'', ''Aave'', ''Compound'', ''Uniswap'']"

definition midTierProtocols :: "string list" where
  "midTierProtocols = [''SushiSwap'', ''QuickSwap'', ''Balancer'', ''Bancor'']"

definition lowerTierProtocols :: "string list" where
  "lowerTierProtocols = [''PancakeSwap'', ''TraderJoe'']"

text \<open>The five additive factors of \<^verbatim>\<open>calculateRiskScore\<close>, in the order of the source.\<close>

definition tokenPairRisk :: "LiquidityPair \<Rightarrow> int" where
  "tokenPairRisk pair =
     (let s0 = tok_symbol (token0 pair); s1 = tok_symbol (token1 pair);
          isStablePair = (arr_includes stablecoins s0 \<and> arr_includes stablecoins s1);
          isBlueChipPair =
            ((arr_includes blueChipTokens s0 \<or> arr_includes stablecoins s0) \<and>
             (arr_includes blueChipTokens s1 \<or> arr_includes stablecoins s1))
      in if isStablePair then 1
         else if isBlueChipPair then 2
         else if arr_includes blueChipTokens s0 \<or> arr_includes blueChipTokens s1 then 3
         else 4)"

definition protocolRisk :: "LiquidityPair \<Rightarrow> int" where
  "protocolRisk pair =
     (if arr_includes topTierProtocols (pair_protocol pair) then 1
      else if arr_includes midTierProtocols (pair_protocol pair) then 2
      else if arr_includes lowerTierProtocols (pair_protocol pair) then 3
      else 4)"

definition tvlRisk :: "LiquidityPair \<Rightarrow> int" where
  "tvlRisk pair =
     (if jgt (pair_tvl pair) (Num 10000000) then 1
      else if jgt (pair_tvl pair) (Num 5000000) then 2
      else if jgt (pair_tvl pair) (Num 1000000) then 3
      else 4)"

definition volumeRisk :: "LiquidityPair \<Rightarrow> int" where
  "volumeRisk pair =
     (if jgt (volume24h pair) (Num 5000000) then 1
      else if jgt (volume24h pair) (Num 2000000) then 2
      else if jgt (volume24h pair) (Num 500000) then 3
      else 4)"

definition volumeStabilityRisk :: "LiquidityPair \<Rightarrow> int" where
  "volumeStabilityRisk pair =
     (if jlt (Math_abs (volumeChange7d pair)) (Num 5) then 1
      else if jlt (Math_abs (volumeChange7d pair)) (Num 15) then 2
      else if jlt (Math_abs (volumeChange7d pair)) (Num 30) then 3
      else 4)"

definition calculateRiskScore :: "LiquidityPair \<Rightarrow> int" where
  "calculateRiskScore pair =
     0 + tokenPairRisk pair + protocolRisk pair + tvlRisk pair + volumeRisk pair
       + volumeStabilityRisk pair"

text \<open>The constant the quality score of \<^verbatim>\<open>calculatePotentialProfit\<close> divides by.\<close>

definition maxRiskScore :: int where
  "maxRiskScore = 24"

definition riskComponent :: "LiquidityPair \<Rightarrow> real" where
  "riskComponent pair =
     (of_int (maxRiskScore - calculateRiskScore pair) / of_int maxRiskScore) * 60"

section \<open>Portfolio tracker: the risk score of an investment\<close>

definition protocolAdjustment :: "string \<Rightarrow> jsnum" where
  "protocolAdjustment protocol =
     (let protocolLower = toLowerCase protocol in
      if some [''uniswap'', ''curve'', ''aave'', ''compound''] (\<lambda>p. str_includes protocolLower p)
        then Num (- 10)
      else if some [''sushiswap'', ''balancer'', ''yearn''] (\<lambda>p. str_includes protocolLower p)
        then Num (- 5)
      else if some [''pancakeswap'', ''quickswap''] (\<lambda>p. str_includes protocolLower p)
        then Num 5
      else Num 10)"

definition volatilityAdjustment :: "jsnum \<Rightarrow> jsnum" where
  "volatilityAdjustment safeVolatility =
     (if jlt safeVolatility (Num 5) then Num (- 10)
      else if jgt safeVolatility (Num 20) then Num 15
      else if jgt safeVolatility (Num 10) then Num 5
      else Num 0)"

definition apyAdjustment :: "jsnum \<Rightarrow> jsnum" where
  "apyAdjustment safeApy =
     (if jgt safeApy (Num 100) then Num 20
      else if jgt safeApy (Num 50) then Num 10
      else if jgt safeApy (Num 20) then Num 5
      else Num 0)"

definition calculateInvestmentRiskScore :: "string \<Rightarrow> jsnum \<Rightarrow> jsnum \<Rightarrow> jsnum" where
  "calculateInvestmentRiskScore protocol volatility apy =
     (let safeVolatility = safeNumber volatility (Num 5);
          safeApy = safeNumber apy (Num 5);
          riskScore = Num 50;
          riskScore = jadd riskScore (protocolAdjustment protocol);
          riskScore = jadd riskScore (volatilityAdjustment safeVolatility);
          riskScore = jadd riskScore (apyAdjustment safeApy)
      in Math_max (Num 0) (Math_min (Num 100) riskScore))"

section \<open>Yield opportunities and the yield service\<close>

record YieldOpportunity =
  opp_protocol :: string
  opp_asset :: string
  opp_symbol :: string
  opp_apr :: jsnum
  opp_tvl :: jsnum
  opp_userBalance :: jsnum
  opp_depositUrl :: string
  opp_contractAddress :: "string option"
  opp_estimatedGasCost :: "string option"
  opp_estimatedFee :: "jsnum option"

definition aaveUrl :: "string \<Rightarrow> string" where
  "aaveUrl asset =
     ''https://app.aave.com/reserve-overview/?underlyingAsset='' @ asset
       @ ''&marketName=proto_polygon_v3''"

definition mockOpportunity ::
  "string \<Rightarrow> string \<Rightarrow> real \<Rightarrow> real \<Rightarrow> real \<Rightarrow> string \<Rightarrow> string \<Rightarrow> YieldOpportunity" where
  "mockOpportunity protocol asset apr tvl userBalance depositUrl contractAddress =
     \<lparr>opp_protocol = protocol, opp_asset = asset, opp_symbol = asset, opp_apr = Num apr,
      opp_tvl = Num tvl, opp_userBalance = Num userBalance, opp_depositUrl = depositUrl,
      opp_contractAddress = Some contractAddress, opp_estimatedGasCost = None,
      opp_estimatedFee = None\<rparr>"

definition mockYieldData :: "YieldOpportunity list" where
  "mockYieldData =
     [mockOpportunity ''Aave'' ''USDC'' 5.2 500000000 100
        (aaveUrl ''0x2791bca1f2de4661ed88a30c99a7a9449aa84174'')
        ''0x794a61358D6845594F94dc1DB02A252b5b4814aD'',
      mockOpportunity ''Compound'' ''USDC'' 4.8 300000000 100
        ''https://app.compound.finance/'' ''0xF25212E676D1F7F89Cd72fFEe66158f541246445'',
      mockOpportunity ''Aave'' ''DAI'' 4.5 200000000 50
        (aaveUrl ''0x8f3cf7ad23cd3cadbd9735aff958023239c6a063'')
        ''0x794a61358D6845594F94dc1DB02A252b5b4814aD'',
      mockOpportunity ''Compound'' ''DAI'' 4.2 150000000 50
        ''https://app.compound.finance/'' ''0xF25212E676D1F7F89Cd72fFEe66158f541246445'',
      mockOpportunity ''Aave'' ''WETH'' 2.1 800000000 0.5
        (aaveUrl ''0x7ceb23fd6bc0add59e62ac25578270cff1b9f619'')
        ''0x794a61358D6845594F94dc1DB02A252b5b4814aD'',
      mockOpportunity ''Compound'' ''WETH'' 1.9 600000000 0.5
        ''https://app.compound.finance/'' ''0xF25212E676D1F7F89Cd72fFEe66158f541246445'']"

text \<open>
  A thrown value, and the outcome of a computation that may throw: \<open>Inl\<close> is the throw
  (for an async function, the rejection of its promise).
\<close>

datatype js_error = Error string | TypeError

type_synonym 'a js_result = "js_error + 'a"

text \<open>An optional string argument is falsy when it is absent or empty.\<close>

definition absent :: "string option \<Rightarrow> bool" where
  "absent address = (case address of None \<Rightarrow> True | Some a \<Rightarrow> a = [])"

text \<open>
  The body of the \<^verbatim>\<open>try\<close> block of \<^verbatim>\<open>getYieldOpportunities\<close>. Its data retrieval is the
  argument \<open>retrieved\<close>: the data, or what the retrieval threw. The source as it stands
  reads the constant \<^verbatim>\<open>mockYieldData\<close>, which is \<open>Inr mockYieldData\<close>.
\<close>

definition tryFetch ::
  "YieldOpportunity list js_result \<Rightarrow> string option \<Rightarrow> YieldOpportunity list js_result" where
  "tryFetch retrieved address =
     (case retrieved of
        Inl e \<Rightarrow> Inl e
      | Inr yieldData \<Rightarrow>
          if absent address
          then Inr (map (\<lambda>opportunity. opportunity\<lparr>opp_userBalance := Num 0\<rparr>) yieldData)
          else Inr yieldData)"

text \<open>
  The function with its \<^verbatim>\<open>catch\<close>: the console (the lines of \<^verbatim>\<open>console.error\<close>) is
  threaded through, and the result is again an outcome, so that a propagated error
  would show as \<open>Inl\<close>.
\<close>

type_synonym console = "(string \<times> js_error) list"

definition getYieldOpportunities ::
  "YieldOpportunity list js_result \<Rightarrow> string option \<Rightarrow> console
     \<Rightarrow> console \<times> YieldOpportunity list js_result" where
  "getYieldOpportunities retrieved address con =
     (case tryFetch retrieved address of
        Inr opportunities \<Rightarrow> (con, Inr opportunities)
      | Inl error \<Rightarrow> (con @ [(''Error fetching yield opportunities:'', error)], Inr []))"

section \<open>Yield strategy planner: projection and break-even day\<close>

record ProjectionPoint =
  day :: int
  totalValue :: jsnum
  cumulativeYield :: jsnum
  netProfit :: jsnum

text \<open>
  The inputs of the component: the opportunity, the three state variables, and the entry
  gas cost (in the source parsed from the opportunity's fee strings, default 5).
\<close>

record Planner =
  opportunity :: YieldOpportunity
  investmentAmount :: jsnum
  timeHorizon :: int
  reinvestYield :: bool
  entryGasCost :: jsnum

definition exitGasCost :: "Planner \<Rightarrow> jsnum" where
  "exitGasCost pl = jmul (entryGasCost pl) (Num 0.8)"

definition totalGasCost :: "Planner \<Rightarrow> jsnum" where
  "totalGasCost pl = jadd (entryGasCost pl) (exitGasCost pl)"

definition dailyRate :: "Planner \<Rightarrow> jsnum" where
  "dailyRate pl = jdiv (jdiv (opp_apr (opportunity pl)) (Num 365)) (Num 100)"

definition effectiveApr :: "Planner \<Rightarrow> jsnum" where
  "effectiveApr pl =
     (if jgt (opp_apr (opportunity pl)) (Num 0) then opp_apr (opportunity pl) else Num 5)"

definition effectiveDailyRate :: "Planner \<Rightarrow> jsnum" where
  "effectiveDailyRate pl = jdiv (jdiv (effectiveApr pl) (Num 365)) (Num 100)"

text \<open>
  One pass through the body of the \<^verbatim>\<open>for\<close> loop of \<^verbatim>\<open>generateProjectionData\<close>: the
  day's yield on the current amount, the two updated variables, and the entry pushed.
\<close>

definition dailyYield :: "Planner \<Rightarrow> jsnum \<Rightarrow> jsnum" where
  "dailyYield pl currentAmount = jmul currentAmount (effectiveDailyRate pl)"

definition nextCumulative :: "Planner \<Rightarrow> jsnum \<Rightarrow> jsnum \<Rightarrow> jsnum" where
  "nextCumulative pl currentAmount cumulative = jadd cumulative (dailyYield pl currentAmount)"

definition nextAmount :: "Planner \<Rightarrow> jsnum \<Rightarrow> jsnum" where
  "nextAmount pl currentAmount =
     (if reinvestYield pl then jadd currentAmount (dailyYield pl currentAmount)
      else currentAmount)"

definition pushed :: "Planner \<Rightarrow> int \<Rightarrow> jsnum \<Rightarrow> jsnum \<Rightarrow> ProjectionPoint" where
  "pushed pl d currentAmount cumulative =
     \<lparr>day = d,
      totalValue =
        (if reinvestYield pl then nextAmount pl currentAmount
         else jadd (investmentAmount pl) (nextCumulative pl currentAmount cumulative)),
      cumulativeYield = nextCumulative pl currentAmount cumulative,
      netProfit = jsub (nextCumulative pl currentAmount cumulative) (totalGasCost pl)\<rparr>"

text \<open>
  The loop \<^verbatim>\<open>for (let day = 0; day <= timeHorizon; day++)\<close>, with its variables
  \<^verbatim>\<open>day\<close>, \<^verbatim>\<open>currentAmount\<close>, \<^verbatim>\<open>cumulativeYield\<close> and \<^verbatim>\<open>data\<close> as arguments.
\<close>

function projectionLoop ::
  "Planner \<Rightarrow> int \<Rightarrow> jsnum \<Rightarrow> jsnum \<Rightarrow> ProjectionPoint list \<Rightarrow> ProjectionPoint list" where
  "projectionLoop pl d currentAmount cumulative data =
     (if d \<le> timeHorizon pl then
        projectionLoop pl (d + 1) (nextAmount pl currentAmount)
          (nextCumulative pl currentAmount cumulative)
          (data @ [pushed pl d currentAmount cumulative])
      else data)"
  by pat_completeness auto
termination
  by (relation "measure (\<lambda>(pl, d, c, y, data). nat (timeHorizon pl + 1 - d))") auto

definition generateProjectionData :: "Planner \<Rightarrow> ProjectionPoint list" where
  "generateProjectionData pl = projectionLoop pl 0 (investmentAmount pl) (Num 0) []"

text \<open>\<^verbatim>\<open>Array.prototype.findIndex\<close>: the first index whose element passes, or -1.\<close>

fun findIndexFrom :: "('a \<Rightarrow> bool) \<Rightarrow> int \<Rightarrow> 'a list \<Rightarrow> int" where
  "findIndexFrom P i [] = - 1"
| "findIndexFrom P i (x # xs) = (if P x then i else findIndexFrom P (i + 1) xs)"

definition findIndex :: "('a \<Rightarrow> bool) \<Rightarrow> 'a list \<Rightarrow> int" where
  "findIndex P xs = findIndexFrom P 0 xs"

definition profitable :: "ProjectionPoint \<Rightarrow> bool" where
  "profitable d = jgt (netProfit d) (Num 0)"

definition breakEvenDayOf :: "ProjectionPoint list \<Rightarrow> int" where
  "breakEvenDayOf projectionData = findIndex profitable projectionData"

definition breakEvenDay :: "Planner \<Rightarrow> int" where
  "breakEvenDay pl = breakEvenDayOf (generateProjectionData pl)"


section \<open>Portfolio tracker: data\<close>

record RewardToken =
  rt_symbol :: string
  rt_amount :: jsnum
  rt_value :: jsnum
  rt_apr :: jsnum

record Investment =
  inv_id :: string
  poolId :: string
  poolName :: string
  inv_protocol :: string
  inv_amount :: jsnum
  inv_apy :: jsnum
  startDate :: string
  dailyEarnings :: "jsnum list"
  inv_totalEarnings :: jsnum
  inv_currentValue :: jsnum
  impermanentLoss :: jsnum
  tradingFees :: jsnum
  rewardTokens :: "RewardToken list"
  inv_riskScore :: jsnum
  inv_volatility :: jsnum

record Portfolio =
  investments :: "Investment list"
  totalInvested :: jsnum
  totalCurrentValue :: jsnum
  totalEarnings :: jsnum
  averageApy :: jsnum

text \<open>The state \<^verbatim>\<open>newInvestment\<close> of the form that \<^verbatim>\<open>addInvestment\<close> reads.\<close>

record NewInvestment =
  ni_poolName :: string
  ni_protocol :: string
  ni_amount :: jsnum
  ni_apy :: jsnum
  ni_startDate :: string
  ni_volatility :: jsnum
  ni_rewardTokens :: "RewardToken list"

definition emptyPortfolio :: Portfolio where
  "emptyPortfolio =
     \<lparr>investments = [], totalInvested = Num 0, totalCurrentValue = Num 0,
      totalEarnings = Num 0, averageApy = Num 0\<rparr>"

definition safeRewardTokens :: "Investment \<Rightarrow> RewardToken list" where
  "safeRewardTokens investment = rewardTokens investment"

definition safeTradingFees :: "Investment \<Rightarrow> jsnum" where
  "safeTradingFees investment = safeNumber (tradingFees investment) (Num 0)"

section \<open>Portfolio tracker: adding and removing an investment\<close>

definition upper_char :: "char \<Rightarrow> char" where
  "upper_char c =
     (case map_of (zip ''abcdefghijklmnopqrstuvwxyz'' ''ABCDEFGHIJKLMNOPQRSTUVWXYZ'') c of
        Some u \<Rightarrow> u
      | None \<Rightarrow> c)"

definition toUpperCase :: "string \<Rightarrow> string" where
  "toUpperCase s = map upper_char s"

definition defaultRewardTokens :: "NewInvestment \<Rightarrow> jsnum \<Rightarrow> RewardToken list" where
  "defaultRewardTokens form estimatedRewardValue =
     (if ni_rewardTokens form \<noteq> [] then ni_rewardTokens form
      else if str_includes (toLowerCase (ni_protocol form)) ''uniswap'' then
        [\<lparr>rt_symbol = ''UNI'', rt_amount = jdiv estimatedRewardValue (Num 5),
          rt_value = estimatedRewardValue, rt_apr = jmul (ni_apy form) (Num 0.3)\<rparr>]
      else if str_includes (toLowerCase (ni_protocol form)) ''sushi'' then
        [\<lparr>rt_symbol = ''SUSHI'', rt_amount = jdiv estimatedRewardValue (Num 1.2),
          rt_value = estimatedRewardValue, rt_apr = jmul (ni_apy form) (Num 0.3)\<rparr>]
      else
        [\<lparr>rt_symbol = toUpperCase (take 4 (ni_protocol form)),
          rt_amount = jdiv estimatedRewardValue (Num 2),
          rt_value = estimatedRewardValue, rt_apr = jmul (ni_apy form) (Num 0.3)\<rparr>])"

text \<open>
  The investment that \<^verbatim>\<open>addInvestment\<close> builds; \<open>now\<close> is \<^verbatim>\<open>Date.now()\<close> as printed into
  the id.
\<close>

definition newInvestmentOf :: "string \<Rightarrow> NewInvestment \<Rightarrow> Investment" where
  "newInvestmentOf now form =
     (let ident = ''inv-'' @ now;
          dailyRate = jdiv (jdiv (ni_apy form) (Num 365)) (Num 100);
          dailyEarning = jmul (ni_amount form) dailyRate;
          estimatedVolatility = or_else (ni_volatility form) (Num 5);
          volFraction = jdiv estimatedVolatility (Num 100);
          estimatedImpermanentLoss =
            jmul (jmul (ni_amount form) (jmul volFraction volFraction)) (Num 25);
          estimatedTradingFees = jmul dailyEarning (Num 0.7);
          estimatedRewardValue = jmul dailyEarning (Num 0.3)
      in \<lparr>inv_id = ident, poolId = ident, poolName = ni_poolName form,
          inv_protocol = ni_protocol form, inv_amount = ni_amount form,
          inv_apy = ni_apy form, startDate = ni_startDate form,
          dailyEarnings = [dailyEarning], inv_totalEarnings = Num 0,
          inv_currentValue = ni_amount form,
          impermanentLoss = estimatedImpermanentLoss, tradingFees = estimatedTradingFees,
          rewardTokens = defaultRewardTokens form estimatedRewardValue,
          inv_riskScore =
            calculateInvestmentRiskScore (ni_protocol form) estimatedVolatility (ni_apy form),
          inv_volatility = estimatedVolatility\<rparr>)"

text \<open>
  The aggregation shared by \<^verbatim>\<open>addInvestment\<close> and the second half of
  \<^verbatim>\<open>removeInvestment\<close>: four \<^verbatim>\<open>reduce\<close> calls over the updated list.
\<close>

definition aggregate :: "Investment list \<Rightarrow> Portfolio" where
  "aggregate updatedInvestments =
     (let invested = reduce_sum inv_amount updatedInvestments;
          current = reduce_sum inv_currentValue updatedInvestments;
          earned = jsub current invested;
          apy = jdiv (reduce_sum (\<lambda>inv. jmul (inv_apy inv) (inv_amount inv)) updatedInvestments)
                  invested
      in \<lparr>investments = updatedInvestments, totalInvested = invested,
          totalCurrentValue = current, totalEarnings = earned, averageApy = apy\<rparr>)"

definition addInvestment :: "string \<Rightarrow> NewInvestment \<Rightarrow> Portfolio \<Rightarrow> Portfolio" where
  "addInvestment now form p = aggregate (investments p @ [newInvestmentOf now form])"

definition removeInvestment :: "string \<Rightarrow> Portfolio \<Rightarrow> Portfolio" where
  "removeInvestment ident p =
     (let updatedInvestments = filter (\<lambda>inv. inv_id inv \<noteq> ident) (investments p) in
      if length updatedInvestments = 0 then
        \<lparr>investments = [], totalInvested = Num 0, totalCurrentValue = Num 0,
         totalEarnings = Num 0, averageApy = Num 0\<rparr>
      else aggregate updatedInvestments)"

section \<open>Portfolio tracker: one simulated day\<close>

text \<open>
  The clock stands for \<^verbatim>\<open>differenceInDays(new Date(), new Date(startDate))\<close>: it gives no
  value for a string that is not a date.
\<close>

type_synonym clock = "string \<Rightarrow> int option"

definition daysSinceStart :: "clock \<Rightarrow> Investment \<Rightarrow> jsnum" where
  "daysSinceStart clk investment =
     (if startDate investment = [] then Num 1
      else case clk (startDate investment) of
             None \<Rightarrow> Num 1
           | Some n \<Rightarrow> Math_max (Num 1) (Num (of_int (n + 1))))"

definition growthMultiplier :: jsnum where
  "growthMultiplier = Num 1.5"

definition updateRewardToken :: "jsnum \<Rightarrow> RewardToken \<Rightarrow> RewardToken" where
  "updateRewardToken dailyRewardValue token =
     (let tokenValue = safeNumber (rt_value token) (Num 1);
          tokenAmount = safeNumber (rt_amount token) (Num 0)
      in token\<lparr>rt_amount := jadd tokenAmount (jmul (jdiv dailyRewardValue tokenValue) tokenAmount),
               rt_value := jadd tokenValue dailyRewardValue\<rparr>)"

definition simulateInvestment :: "clock \<Rightarrow> Investment \<Rightarrow> Investment" where
  "simulateInvestment clk investment =
     (let amount = safeNumber (inv_amount investment) (Num 0);
          apy = safeNumber (inv_apy investment) (Num 5);
          currentValue = safeNumber (inv_currentValue investment) amount;
          earned = safeNumber (inv_totalEarnings investment) (Num 0);
          loss = safeNumber (impermanentLoss investment) (Num 0);
          fees = safeNumber (safeTradingFees investment) (Num 0);
          dailyRate = jmul (jdiv (jdiv apy (Num 365)) (Num 100)) growthMultiplier;
          dailyEarning = jmul currentValue dailyRate;
          dailyImpermanentLoss =
            jmul (jdiv loss (Math_sqrt (daysSinceStart clk investment))) (Num 0.1);
          dailyTradingFees = jmul dailyEarning (Num 0.7);
          dailyRewardValue = jmul dailyEarning (Num 0.3);
          updatedRewardTokens =
            map (updateRewardToken dailyRewardValue) (safeRewardTokens investment);
          netDailyEarning = jsub (jadd dailyTradingFees dailyRewardValue) dailyImpermanentLoss;
          newTotalEarnings = jadd earned netDailyEarning;
          newCurrentValue = jadd amount newTotalEarnings
      in investment
           \<lparr>dailyEarnings := dailyEarnings investment @ [netDailyEarning],
            inv_totalEarnings := newTotalEarnings,
            inv_currentValue := newCurrentValue,
            impermanentLoss := jadd loss dailyImpermanentLoss,
            tradingFees := jadd fees dailyTradingFees,
            rewardTokens :=
              (if length updatedRewardTokens > 0 then updatedRewardTokens
               else rewardTokens investment)\<rparr>)"

definition simulateSingleDayWithoutStateUpdate :: "clock \<Rightarrow> Portfolio \<Rightarrow> Portfolio" where
  "simulateSingleDayWithoutStateUpdate clk currentPortfolio =
     (let updatedInvestments = map (simulateInvestment clk) (investments currentPortfolio);
          invested = reduce_sum (\<lambda>inv. safeNumber (inv_amount inv) (Num 0)) updatedInvestments;
          current =
            reduce_sum (\<lambda>inv. safeNumber (inv_currentValue inv) (Num 0)) updatedInvestments;
          earned = jsub current invested;
          apy =
            (if jgt invested (Num 0) then
               jdiv (reduce_sum
                       (\<lambda>inv. jmul (safeNumber (inv_apy inv) (Num 0))
                                 (safeNumber (inv_amount inv) (Num 0)))
                       updatedInvestments)
                 invested
             else Num 0)
      in \<lparr>investments = updatedInvestments, totalInvested = invested,
          totalCurrentValue = current, totalEarnings = earned, averageApy = apy\<rparr>)"

section \<open>Portfolio tracker: health metrics\<close>

text \<open>
  \<^verbatim>\<open>protocolDistribution\<close> is a plain object filled by
  \<^verbatim>\<open>d[k] = (d[k] || 0) + amount\<close> with the protocol name, a free text, as the key. The
  model is an association list of the object's own properties in insertion order (the code
  enumerates names that are array indices first; the order only decides the order of a sum),
  and it follows what the members of \<^verbatim>\<open>Object.prototype\<close> do to such a key:
  \<^item> for \<^verbatim>\<open>__proto__\<close> the read gives the prototype object, the sum is a string, and the
    assignment of a string to \<^verbatim>\<open>__proto__\<close> is ignored: no property is ever created;
  \<^item> for the name of an inherited method the first read gives a function, which is
    truthy, so the sum is the function's text followed by the amount: a string is stored,
    every later sum appends to it, and as a number the string is NaN;
  \<^item> for any other name the first read gives \<^verbatim>\<open>undefined\<close> and the amounts are added, a
    held amount of 0 or NaN being replaced by 0 before each addition.
\<close>

definition inheritedMethods :: "string list" where
  "inheritedMethods =
     [''constructor'', ''__defineGetter__'', ''__defineSetter__'', ''hasOwnProperty'',
      ''__lookupGetter__'', ''__lookupSetter__'', ''isPrototypeOf'',
      ''propertyIsEnumerable'', ''toString'', ''valueOf'', ''toLocaleString'']"

datatype held = Amount jsnum | Text

type_synonym distribution = "(string \<times> held) list"

fun assign :: "distribution \<Rightarrow> string \<Rightarrow> held \<Rightarrow> distribution" where
  "assign [] k v = [(k, v)]"
| "assign ((k', v') # rest) k v =
     (if k' = k then (k, v) # rest else (k', v') # assign rest k v)"

definition accumulate :: "distribution \<Rightarrow> Investment \<Rightarrow> distribution" where
  "accumulate distr investment =
     (let k = inv_protocol investment in
      if k = ''__proto__'' then distr
      else case map_of distr k of
             None \<Rightarrow>
               if arr_includes inheritedMethods k then assign distr k Text
               else assign distr k (Amount (jadd (Num 0) (inv_amount investment)))
           | Some (Amount v) \<Rightarrow>
               assign distr k (Amount (jadd (or_else v (Num 0)) (inv_amount investment)))
           | Some Text \<Rightarrow> assign distr k Text)"

definition protocolDistribution :: "Investment list \<Rightarrow> distribution" where
  "protocolDistribution invs = foldl accumulate [] invs"

text \<open>What a held value is as the dividend of \<^verbatim>\<open>amount / totalInvested\<close>.\<close>

fun toNumber :: "held \<Rightarrow> jsnum" where
  "toNumber (Amount v) = v"
| "toNumber Text = NaN"

definition protocolsSize :: "Investment list \<Rightarrow> nat" where
  "protocolsSize invs = length (remdups (map inv_protocol invs))"

definition hhiOf :: "Portfolio \<Rightarrow> jsnum" where
  "hhiOf p =
     foldl (\<lambda>acc amount.
              let marketShare = jdiv (toNumber amount) (totalInvested p)
              in jadd acc (jmul marketShare marketShare))
       (Num 0) (map snd (protocolDistribution (investments p)))"

definition perfectHHI :: "Portfolio \<Rightarrow> jsnum" where
  "perfectHHI p = jdiv (Num 1) (Num (of_nat (protocolsSize (investments p))))"

definition worstHHI :: jsnum where
  "worstHHI = Num 1"

definition normalizedHHI :: "Portfolio \<Rightarrow> jsnum" where
  "normalizedHHI p = jdiv (jsub (hhiOf p) (perfectHHI p)) (jsub worstHHI (perfectHHI p))"

definition diversificationOf :: "Portfolio \<Rightarrow> jsnum" where
  "diversificationOf p = Math_round (jmul (jsub (Num 1) (normalizedHHI p)) (Num 100))"

definition apyRiskOf :: "Portfolio \<Rightarrow> jsnum" where
  "apyRiskOf p =
     Math_min (Num 100)
       (Math_round
          (foldl (\<lambda>score inv.
                    let apyRiskFactor =
                          (if jgt (inv_apy inv) (Num 20) then jdiv (inv_apy inv) (Num 20)
                           else jdiv (inv_apy inv) (Num 40))
                    in jadd score
                         (jmul (jmul apyRiskFactor (jdiv (inv_amount inv) (totalInvested p)))
                            (Num 100)))
             (Num 0) (investments p)))"

definition calculateRoi :: "Portfolio \<Rightarrow> jsnum" where
  "calculateRoi p =
     (if totalInvested p = Num 0 then Num 0
      else jmul (jdiv (totalEarnings p) (totalInvested p)) (Num 100))"

definition performanceOf :: "Portfolio \<Rightarrow> jsnum" where
  "performanceOf p =
     (let roi = calculateRoi p in
      Math_min (Num 100)
        (Math_round
           (jadd (jmul (jdiv roi (averageApy p)) (Num 50))
              (if jgt roi (Num 0) then Num 50 else Num 0))))"

text \<open>
  The scores of \<^verbatim>\<open>calculatePortfolioHealth\<close>. The texts it also sets (top performer,
  concentration, recommendations) do not feed the scores and are not modelled, except
  for the one place where computing them fails:
  \<^verbatim>\<open>Object.entries(protocolDistribution).sort(...)[0]\<close> is \<^verbatim>\<open>undefined\<close> when the object has
  no own property, and the read of \<^verbatim>\<open>riskConcentration[1]\<close> that follows throws a
  \<^verbatim>\<open>TypeError\<close>, after the scores are computed and before \<^verbatim>\<open>setPortfolioHealth\<close> is
  called. The result is the health that is set, or the error thrown.
\<close>

record PortfolioHealth =
  diversificationScore :: jsnum
  health_riskScore :: jsnum
  performanceScore :: jsnum
  overallHealthScore :: jsnum

definition calculatePortfolioHealth :: "Portfolio \<Rightarrow> PortfolioHealth js_result" where
  "calculatePortfolioHealth p =
     (if length (investments p) = 0 then
        Inr \<lparr>diversificationScore = Num 0, health_riskScore = Num 0, performanceScore = Num 0,
             overallHealthScore = Num 0\<rparr>
      else if protocolDistribution (investments p) = [] then Inl TypeError
      else
        Inr \<lparr>diversificationScore = diversificationOf p,
             health_riskScore = apyRiskOf p,
             performanceScore = performanceOf p,
             overallHealthScore =
               Math_round
                 (jadd (jadd (jmul (diversificationOf p) (Num 0.4))
                          (jmul (Math_max (Num 0) (jsub (Num 100) (apyRiskOf p))) (Num 0.3)))
                    (jmul (performanceOf p) (Num 0.3)))\<rparr>)"

text \<open>The diversification score that is set, or the error thrown instead.\<close>

definition diversificationResult :: "Portfolio \<Rightarrow> jsnum js_result" where
  "diversificationResult p = map_sum id diversificationScore (calculatePortfolioHealth p)"

section \<open>Portfolio tracker: component state and the simulation\<close>

text \<open>
  \<^verbatim>\<open>JSON.parse(JSON.stringify(portfolio))\<close>: a deep copy in which a number that is not finite
  is written as \<^verbatim>\<open>null\<close>. The simulation reads the copy through \<^verbatim>\<open>safeNumber\<close>, where
  \<^verbatim>\<open>null\<close> fails the \<^verbatim>\<open>typeof\<close> test as NaN fails the \<^verbatim>\<open>isNaN\<close> test, so \<^verbatim>\<open>null\<close> is
  modelled by NaN there. In an addition outside \<^verbatim>\<open>safeNumber\<close> the code reads \<^verbatim>\<open>null\<close> as
  0, which NaN does not follow: the copy is exact on portfolios whose numbers are finite,
  and nothing below is stated about the numbers of a copy of any other portfolio.
\<close>

definition json_num :: "jsnum \<Rightarrow> jsnum" where
  "json_num x = (case x of Num a \<Rightarrow> Num a | PInf \<Rightarrow> NaN | NInf \<Rightarrow> NaN | NaN \<Rightarrow> NaN)"

definition json_token :: "RewardToken \<Rightarrow> RewardToken" where
  "json_token t =
     t\<lparr>rt_amount := json_num (rt_amount t), rt_value := json_num (rt_value t),
       rt_apr := json_num (rt_apr t)\<rparr>"

definition json_investment :: "Investment \<Rightarrow> Investment" where
  "json_investment i =
     i\<lparr>inv_amount := json_num (inv_amount i), inv_apy := json_num (inv_apy i),
       dailyEarnings := map json_num (dailyEarnings i),
       inv_totalEarnings := json_num (inv_totalEarnings i),
       inv_currentValue := json_num (inv_currentValue i),
       impermanentLoss := json_num (impermanentLoss i),
       tradingFees := json_num (tradingFees i),
       rewardTokens := map json_token (rewardTokens i),
       inv_riskScore := json_num (inv_riskScore i),
       inv_volatility := json_num (inv_volatility i)\<rparr>"

definition json_copy :: "Portfolio \<Rightarrow> Portfolio" where
  "json_copy p =
     \<lparr>investments = map json_investment (investments p),
      totalInvested = json_num (totalInvested p),
      totalCurrentValue = json_num (totalCurrentValue p),
      totalEarnings = json_num (totalEarnings p),
      averageApy = json_num (averageApy p)\<rparr>"

text \<open>
  A point of the simulation history (the source stores the formatted date; the model
  stores the offset in days from the start), the summary shown at the end (without the
  projected annual return, a \<^verbatim>\<open>Math.pow\<close> with a fractional exponent that only the dialog
  shows), and the changes highlighted after applying a simulation.
\<close>

record HistoryPoint =
  hp_offset :: int
  hp_value :: jsnum

record SimulationSummary =
  initialValue :: jsnum
  finalValue :: jsnum
  totalGrowth :: jsnum
  percentageGrowth :: jsnum
  dailyAverage :: jsnum

record RecentChanges =
  rc_totalInvested :: jsnum
  oldTotalValue :: jsnum
  newTotalValue :: jsnum
  oldTotalEarnings :: jsnum
  newTotalEarnings :: jsnum
  valueChange :: jsnum
  earningsChange :: jsnum

text \<open>
  The variables captured by the callback of \<^verbatim>\<open>setInterval\<close>: the number of days, the day
  reached, the working copy of the portfolio and the history.
\<close>

record Interval =
  run_days :: int
  currentDay :: int
  simulatedPortfolio :: Portfolio
  history :: "HistoryPoint list"

text \<open>
  The state of the component: the portfolio, the value under the key
  \<^verbatim>\<open>yield-snap-portfolio\<close> of the local storage (as the portfolio it decodes to), and the
  display state. The running intervals are part of the state.
\<close>

record Tracker =
  portfolio :: Portfolio
  storage :: "Portfolio option"
  portfolioHealth :: PortfolioHealth
  simulatedPortfolioResult :: "Portfolio option"
  isSimulating :: bool
  simulationProgress :: jsnum
  simulationHistory :: "HistoryPoint list"
  simulationComplete :: bool
  simulationSummary :: "SimulationSummary option"
  recentChanges :: "RecentChanges option"
  showChanges :: bool
  showSimulationDialog :: bool
  intervals :: "Interval list"
  toasts :: "string list"

text \<open>
  \<^verbatim>\<open>setPortfolio\<close> together with the effect that runs whenever the portfolio changes: the
  portfolio is written to the local storage, then its health is recomputed. When
  \<^verbatim>\<open>calculatePortfolioHealth\<close> throws, the health is left as it was (what the framework
  does with the error of an effect is outside the model).
\<close>

definition setPortfolio :: "Portfolio \<Rightarrow> Tracker \<Rightarrow> Tracker" where
  "setPortfolio p s =
     s\<lparr>portfolio := p, storage := Some (json_copy p),
       portfolioHealth :=
         (case calculatePortfolioHealth p of
            Inr health \<Rightarrow> health
          | Inl thrown \<Rightarrow> portfolioHealth s)\<rparr>"

definition noHealth :: PortfolioHealth where
  "noHealth =
     \<lparr>diversificationScore = Num 0, health_riskScore = Num 0, performanceScore = Num 0,
      overallHealthScore = Num 0\<rparr>"

definition initialTracker :: Tracker where
  "initialTracker =
     \<lparr>portfolio = emptyPortfolio, storage = Some (json_copy emptyPortfolio),
      portfolioHealth = noHealth,
      simulatedPortfolioResult = None, isSimulating = False, simulationProgress = Num 0,
      simulationHistory = [], simulationComplete = False, simulationSummary = None,
      recentChanges = None, showChanges = False, showSimulationDialog = False,
      intervals = [], toasts = []\<rparr>"

text \<open>The loop \<^verbatim>\<open>for (let i = 0; i < days; i++)\<close> of the quick simulation.\<close>

fun simulateDays :: "clock \<Rightarrow> nat \<Rightarrow> Portfolio \<Rightarrow> Portfolio" where
  "simulateDays clk 0 p = p"
| "simulateDays clk (Suc n) p = simulateDays clk n (simulateSingleDayWithoutStateUpdate clk p)"

text \<open>
  \<^verbatim>\<open>simulateDailyUpdate(days, showProgress)\<close>. With \<^verbatim>\<open>showProgress\<close> it starts an interval
  on a working copy; without, it simulates all days at once and writes the result to
  the portfolio and the local storage.
\<close>

definition simulateDailyUpdate :: "clock \<Rightarrow> int \<Rightarrow> bool \<Rightarrow> Tracker \<Rightarrow> Tracker" where
  "simulateDailyUpdate clk days showProgress s =
     (if days \<le> 0 \<or> length (investments (portfolio s)) = 0 then s
      else if showProgress then
        (let start = [\<lparr>hp_offset = 0, hp_value = totalCurrentValue (portfolio s)\<rparr>]
         in s\<lparr>isSimulating := True, simulationProgress := Num 0,
               simulationHistory := start,
               intervals := intervals s @
                 [\<lparr>run_days = days, currentDay = 0,
                   simulatedPortfolio = json_copy (portfolio s), history = start\<rparr>]\<rparr>)
      else
        (let simulated = simulateDays clk (nat days) (json_copy (portfolio s))
         in (setPortfolio simulated (s\<lparr>simulatedPortfolioResult := Some simulated\<rparr>))
              \<lparr>storage := Some (json_copy simulated),
               toasts := toasts s @ [''Simulation Applied'']\<rparr>))"

definition summaryOf :: "HistoryPoint list \<Rightarrow> int \<Rightarrow> SimulationSummary" where
  "summaryOf h days =
     (let initial = hp_value (hd h);
          final = hp_value (last h);
          growth = jsub final initial
      in \<lparr>initialValue = initial, finalValue = final, totalGrowth = growth,
          percentageGrowth = jmul (jdiv growth initial) (Num 100),
          dailyAverage = jdiv growth (Num (of_int days))\<rparr>)"

text \<open>
  One firing of the callback of the \<open>i\<close>-th running interval: either the simulation is
  over, the interval is cleared and the result is stored for applying later, or one more
  day is simulated on the working copy.
\<close>

definition intervalTick :: "clock \<Rightarrow> nat \<Rightarrow> Tracker \<Rightarrow> Tracker" where
  "intervalTick clk i s =
     (if i < length (intervals s) then
        (let run = intervals s ! i in
         if currentDay run \<ge> run_days run then
           s\<lparr>intervals := take i (intervals s) @ drop (Suc i) (intervals s),
             isSimulating := False,
             simulatedPortfolioResult := Some (simulatedPortfolio run),
             simulationSummary :=
               (if length (history run) > 1 then Some (summaryOf (history run) (run_days run))
                else simulationSummary s),
             simulationComplete := True\<rparr>
         else
           (let simulated = simulateSingleDayWithoutStateUpdate clk (simulatedPortfolio run);
                reached = currentDay run + 1;
                extended = history run @
                  [\<lparr>hp_offset = reached, hp_value = totalCurrentValue simulated\<rparr>]
            in s\<lparr>intervals := (intervals s)
                    [i := run\<lparr>simulatedPortfolio := simulated, currentDay := reached,
                               history := extended\<rparr>],
                  simulationProgress :=
                    Math_round
                      (jmul (jdiv (Num (of_int reached)) (Num (of_int (run_days run))))
                         (Num 100)),
                  simulationHistory := extended\<rparr>))
      else s)"

definition applySimulationToPortfolio :: "Tracker \<Rightarrow> Tracker" where
  "applySimulationToPortfolio s =
     (case simulatedPortfolioResult s of
        None \<Rightarrow> s
      | Some newPortfolio \<Rightarrow>
          (let oldPortfolio = portfolio s;
               portfolioChanges =
                 \<lparr>rc_totalInvested = totalInvested oldPortfolio,
                  oldTotalValue = totalCurrentValue oldPortfolio,
                  newTotalValue = totalCurrentValue newPortfolio,
                  oldTotalEarnings = totalEarnings oldPortfolio,
                  newTotalEarnings = totalEarnings newPortfolio,
                  valueChange =
                    jsub (totalCurrentValue newPortfolio) (totalCurrentValue oldPortfolio),
                  earningsChange =
                    jsub (totalEarnings newPortfolio) (totalEarnings oldPortfolio)\<rparr>
           in (setPortfolio newPortfolio s)
                \<lparr>storage := Some (json_copy newPortfolio),
                 recentChanges := Some portfolioChanges, showChanges := True,
                 showSimulationDialog := False, simulationComplete := False,
                 simulationSummary := None, simulatedPortfolioResult := None,
                 toasts := toasts s @ [''Simulation Applied'']\<rparr>))"

text \<open>
  The timer-driven simulation: \<^verbatim>\<open>simulateDailyUpdate(days, true)\<close> followed by any number
  of firings of intervals, each with the clock of its moment.
\<close>

fun fire :: "(clock \<times> nat) list \<Rightarrow> Tracker \<Rightarrow> Tracker" where
  "fire [] s = s"
| "fire ((clk, i) # rest) s = fire rest (intervalTick clk i s)"

definition visualSimulation :: "clock \<Rightarrow> int \<Rightarrow> (clock \<times> nat) list \<Rightarrow> Tracker \<Rightarrow> Tracker" where
  "visualSimulation clk days firings s = fire firings (simulateDailyUpdate clk days True s)"

text \<open>
  The actions of the user and of the timers, and the states the component reaches from
  the initial empty portfolio.
\<close>

datatype Action =
    AddInvestment string NewInvestment
  | RemoveInvestment string
  | QuickSimulate clock int
  | StartVisualSimulation clock int
  | IntervalFires clock nat
  | ApplySimulation
  | CancelSimulation
  | RunNewSimulation

fun perform :: "Action \<Rightarrow> Tracker \<Rightarrow> Tracker" where
  "perform (AddInvestment now form) s = setPortfolio (addInvestment now form (portfolio s)) s"
| "perform (RemoveInvestment ident) s = setPortfolio (removeInvestment ident (portfolio s)) s"
| "perform (QuickSimulate clk days) s =
     (simulateDailyUpdate clk days False s)\<lparr>showSimulationDialog := False\<rparr>"
| "perform (StartVisualSimulation clk days) s =
     simulateDailyUpdate clk days True
       (s\<lparr>simulationHistory := [], simulationComplete := False, simulationSummary := None,
          simulatedPortfolioResult := None\<rparr>)"
| "perform (IntervalFires clk i) s = intervalTick clk i s"
| "perform ApplySimulation s = applySimulationToPortfolio s"
| "perform CancelSimulation s = s\<lparr>isSimulating := False\<rparr>"
| "perform RunNewSimulation s = s\<lparr>simulationComplete := False, simulationSummary := None\<rparr>"

inductive reachable :: "Tracker \<Rightarrow> bool" where
  initial: "reachable initialTracker"
| step: "reachable s \<Longrightarrow> reachable (perform a s)"

text \<open>What the claims call the aggregates being zero.\<close>

definition aggregatesZero :: "Portfolio \<Rightarrow> bool" where
  "aggregatesZero p =
     (totalInvested p = Num 0 \<and> totalCurrentValue p = Num 0 \<and> totalEarnings p = Num 0
      \<and> averageApy p = Num 0)"

section \<open>The aggregates as the specification words them\<close>

text \<open>
  The sum of a quantity over a list, by recursion on the list (the code folds from the
  left with \<^verbatim>\<open>reduce\<close>), and the relation the specification states between a portfolio's
  aggregate fields and its investments.
\<close>

primrec total :: "('a \<Rightarrow> jsnum) \<Rightarrow> 'a list \<Rightarrow> jsnum" where
  "total f [] = Num 0"
| "total f (x # xs) = jadd (f x) (total f xs)"

definition weightedAverageApy :: "Investment list \<Rightarrow> jsnum \<Rightarrow> jsnum" where
  "weightedAverageApy invs invested =
     jdiv (total (\<lambda>i. jmul (inv_apy i) (inv_amount i)) invs) invested"

definition recomputed :: "Portfolio \<Rightarrow> bool" where
  "recomputed p =
     (totalInvested p = total inv_amount (investments p)
      \<and> totalCurrentValue p = total inv_currentValue (investments p)
      \<and> totalEarnings p = jsub (totalCurrentValue p) (totalInvested p)
      \<and> averageApy p = weightedAverageApy (investments p) (totalInvested p))"

text \<open>The same relation with the guards of the simulated day: NaN read as 0, and an
  average of 0 unless the total invested is positive.\<close>

definition recomputedGuarded :: "Portfolio \<Rightarrow> bool" where
  "recomputedGuarded p =
     (totalInvested p = total (\<lambda>i. safeNumber (inv_amount i) (Num 0)) (investments p)
      \<and> totalCurrentValue p
          = total (\<lambda>i. safeNumber (inv_currentValue i) (Num 0)) (investments p)
      \<and> totalEarnings p = jsub (totalCurrentValue p) (totalInvested p)
      \<and> averageApy p =
          (if jgt (totalInvested p) (Num 0) then
             jdiv (total (\<lambda>i. jmul (safeNumber (inv_apy i) (Num 0))
                                (safeNumber (inv_amount i) (Num 0)))
                     (investments p))
               (totalInvested p)
           else Num 0))"

definition noNaN :: "Investment \<Rightarrow> bool" where
  "noNaN i = (inv_amount i \<noteq> NaN \<and> inv_apy i \<noteq> NaN \<and> inv_currentValue i \<noteq> NaN)"

text \<open>
  The diversification score as the specification words it: the index is the sum over
  the distinct protocols of the squared share of the invested amount, and \<open>n\<close> is the
  number of distinct protocols.
\<close>

definition investedIn :: "Investment list \<Rightarrow> string \<Rightarrow> jsnum" where
  "investedIn invs k = total inv_amount (filter (\<lambda>i. inv_protocol i = k) invs)"

definition shareOf :: "Portfolio \<Rightarrow> string \<Rightarrow> jsnum" where
  "shareOf p k = jdiv (investedIn (investments p) k) (totalInvested p)"

definition HHI :: "Portfolio \<Rightarrow> jsnum" where
  "HHI p =
     total (\<lambda>k. jmul (shareOf p k) (shareOf p k)) (remdups (map inv_protocol (investments p)))"

definition distinctProtocols :: "Portfolio \<Rightarrow> nat" where
  "distinctProtocols p = card (set (map inv_protocol (investments p)))"

definition claimedDiversification :: "Portfolio \<Rightarrow> jsnum" where
  "claimedDiversification p =
     (let n = Num (of_nat (distinctProtocols p)) in
      Math_round
        (jmul (jsub (Num 1)
                 (jdiv (jsub (HHI p) (jdiv (Num 1) n)) (jsub (Num 1) (jdiv (Num 1) n))))
           (Num 100)))"

definition singleProtocol :: "Portfolio \<Rightarrow> bool" where
  "singleProtocol p = (distinctProtocols p = 1)"

text \<open>A portfolio whose aggregates are zero if it holds no investment.\<close>

definition zeroWhenEmpty :: "Portfolio \<Rightarrow> bool" where
  "zeroWhenEmpty p = (investments p = [] \<longrightarrow> aggregatesZero p)"

text \<open>
  The figures of the specification's example: an APR of 5 percent on 1000, a year's
  horizon, reinvested.
\<close>

definition claimedDailyRate :: real where
  "claimedDailyRate = 5 / 365 / 100"

definition samplePlanner :: Planner where
  "samplePlanner =
     \<lparr>opportunity = mockOpportunity ''Aave'' ''USDC'' 5 500000000 100 [] [],
      investmentAmount = Num 1000, timeHorizon = 365, reinvestYield = True,
      entryGasCost = Num 5\<rparr>"

definition sampleSeries :: "ProjectionPoint list" where
  "sampleSeries =
     [\<lparr>day = 0, totalValue = Num 1001, cumulativeYield = Num 1, netProfit = Num (- 1)\<rparr>,
      \<lparr>day = 1, totalValue = Num 1002, cumulativeYield = Num 2, netProfit = Num 0\<rparr>,
      \<lparr>day = 2, totalValue = Num 1003, cumulativeYield = Num 3, netProfit = Num 1\<rparr>,
      \<lparr>day = 3, totalValue = Num 1004, cumulativeYield = Num 4, netProfit = Num 2\<rparr>]"

text \<open>Two pairs at the ends of the risk scale.\<close>

definition sampleToken :: "string \<Rightarrow> Token" where
  "sampleToken s =
     \<lparr>tok_address = [], tok_symbol = s, tok_name = s, tok_decimals = Num 18, tok_price = Num 1\<rparr>"

definition safestPair :: LiquidityPair where
  "safestPair =
     \<lparr>pairAddress = [], token0 = sampleToken ''USDC'', token1 = sampleToken ''DAI'',
      pair_protocol = ''Curve'', pair_tvl = Num 20000000, pair_apr = Num 3,
      pair_rewardTokens = [], riskLevel = low, farmUrl = [], swapUrl = [], fee = Num 0.04,
      volume24h = Num 6000000, volumeChange7d = Num 1\<rparr>"

definition riskiestPair :: LiquidityPair where
  "riskiestPair =
     \<lparr>pairAddress = [], token0 = sampleToken ''FOO'', token1 = sampleToken ''BAR'',
      pair_protocol = ''NewSwap'', pair_tvl = Num 1000, pair_apr = Num 900,
      pair_rewardTokens = [], riskLevel = high, farmUrl = [], swapUrl = [], fee = Num 1,
      volume24h = NaN, volumeChange7d = Num (- 80)\<rparr>"

text \<open>
  A form as the dialog opens it (amount 100, APY 5, volatility 5), the portfolio holding
  that one investment, a form with a negative amount, and a clock on the start date.
\<close>

definition sampleForm :: NewInvestment where
  "sampleForm =
     \<lparr>ni_poolName = ''ETH-USDC'', ni_protocol = ''Uniswap'', ni_amount = Num 100,
      ni_apy = Num 5, ni_startDate = ''2024-01-01'', ni_volatility = Num 5,
      ni_rewardTokens = []\<rparr>"

definition samplePortfolio :: Portfolio where
  "samplePortfolio = addInvestment ''1'' sampleForm emptyPortfolio"

definition shortForm :: NewInvestment where
  "shortForm = sampleForm\<lparr>ni_amount := Num (- 100)\<rparr>"

definition shortPortfolio :: Portfolio where
  "shortPortfolio = addInvestment ''1'' shortForm emptyPortfolio"

definition sampleClock :: clock where
  "sampleClock d = (if d = ''2024-01-01'' then Some 0 else None)"

text \<open>The component after adding the sample investment, and after removing it again.\<close>

definition trackerWithOne :: Tracker where
  "trackerWithOne = perform (AddInvestment ''1'' sampleForm) initialTracker"

definition trackerEmptied :: Tracker where
  "trackerEmptied = perform (RemoveInvestment ''inv-1'') trackerWithOne"

text \<open>
  Portfolios for the diversification score: the sample investment with another protocol
  and amount; two protocols holding 150 and 50; one investment of 100 under a stored
  total of 200; and, built with \<^verbatim>\<open>addInvestment\<close> from the empty portfolio, one investment
  under the protocol name \<^verbatim>\<open>__proto__\<close>, and that investment next to one in Aave.
\<close>

definition investmentIn :: "string \<Rightarrow> string \<Rightarrow> jsnum \<Rightarrow> Investment" where
  "investmentIn now protocol amount =
     newInvestmentOf now (sampleForm\<lparr>ni_protocol := protocol, ni_amount := amount\<rparr>)"

definition twoProtocols :: Portfolio where
  "twoProtocols =
     aggregate [investmentIn ''1'' ''Aave'' (Num 100), investmentIn ''2'' ''Curve'' (Num 50),
                investmentIn ''3'' ''Aave'' (Num 50)]"

definition staleTotal :: Portfolio where
  "staleTotal = (aggregate [investmentIn ''1'' ''Aave'' (Num 100)])\<lparr>totalInvested := Num 200\<rparr>"

definition protoOne :: Portfolio where
  "protoOne = addInvestment ''1'' (sampleForm\<lparr>ni_protocol := ''__proto__''\<rparr>) emptyPortfolio"

definition protoTwo :: Portfolio where
  "protoTwo =
     addInvestment ''2'' (sampleForm\<lparr>ni_protocol := ''__proto__''\<rparr>)
       (addInvestment ''1'' (sampleForm\<lparr>ni_protocol := ''Aave''\<rparr>) emptyPortfolio)"

section \<open>Properties of the liquidity risk score\<close>

lemma tokenPairRisk_range: "1 \<le> tokenPairRisk pair \<and> tokenPairRisk pair \<le> 4"
  by (simp add: tokenPairRisk_def Let_def)

lemma protocolRisk_range: "1 \<le> protocolRisk pair \<and> protocolRisk pair \<le> 4"
  by (simp add: protocolRisk_def)

lemma tvlRisk_range: "1 \<le> tvlRisk pair \<and> tvlRisk pair \<le> 4"
  by (simp add: tvlRisk_def)

lemma volumeRisk_range: "1 \<le> volumeRisk pair \<and> volumeRisk pair \<le> 4"
  by (simp add: volumeRisk_def)

lemma volumeStabilityRisk_range:
  "1 \<le> volumeStabilityRisk pair \<and> volumeStabilityRisk pair \<le> 4"
  by (simp add: volumeStabilityRisk_def)

text \<open>
  C10: for every liquidity pair, \<^verbatim>\<open>calculateRiskScore\<close> is the sum of exactly five factors,
  each between 1 and 4, hence an integer between 5 and 20, although the quality score
  takes 24 for the maximum possible risk score.
\<close>

theorem calculateRiskScore_range:
  "calculateRiskScore pair =
     tokenPairRisk pair + protocolRisk pair + tvlRisk pair + volumeRisk pair
       + volumeStabilityRisk pair
   \<and> tokenPairRisk pair \<in> {1..4} \<and> protocolRisk pair \<in> {1..4} \<and> tvlRisk pair \<in> {1..4}
   \<and> volumeRisk pair \<in> {1..4} \<and> volumeStabilityRisk pair \<in> {1..4}
   \<and> 5 \<le> calculateRiskScore pair \<and> calculateRiskScore pair \<le> 20
   \<and> maxRiskScore = 24"
  using tokenPairRisk_range [of pair] protocolRisk_range [of pair] tvlRisk_range [of pair]
    volumeRisk_range [of pair] volumeStabilityRisk_range [of pair]
  by (simp add: calculateRiskScore_def maxRiskScore_def)

text \<open>Both bounds are reached, and the risk component of the quality score never falls below 10.\<close>

lemma calculateRiskScore_reaches_5:
  "calculateRiskScore safestPair = 5"
  by (simp add: calculateRiskScore_def safestPair_def sampleToken_def tokenPairRisk_def
      protocolRisk_def tvlRisk_def volumeRisk_def volumeStabilityRisk_def jgt_def
      arr_includes_def stablecoins_def blueChipTokens_def topTierProtocols_def Let_def)

lemma calculateRiskScore_reaches_20:
  "calculateRiskScore riskiestPair = 20"
  by (simp add: calculateRiskScore_def riskiestPair_def sampleToken_def tokenPairRisk_def
      protocolRisk_def tvlRisk_def volumeRisk_def volumeStabilityRisk_def jgt_def
      arr_includes_def stablecoins_def blueChipTokens_def topTierProtocols_def
      midTierProtocols_def lowerTierProtocols_def Let_def)

lemma riskComponent_at_least_10: "10 \<le> riskComponent pair"
proof -
  have "calculateRiskScore pair \<le> 20"
    using tokenPairRisk_range [of pair] protocolRisk_range [of pair] tvlRisk_range [of pair]
      volumeRisk_range [of pair] volumeStabilityRisk_range [of pair]
    by (simp add: calculateRiskScore_def)
  then have "(4::real) \<le> of_int (maxRiskScore - calculateRiskScore pair)"
    by (simp add: maxRiskScore_def)
  then show ?thesis
    by (simp add: riskComponent_def maxRiskScore_def)
qed

section \<open>Properties of the investment risk score\<close>

lemma protocolAdjustment_cases:
  "protocolAdjustment p \<in> {Num (- 10), Num (- 5), Num 5, Num 10}"
  by (simp add: protocolAdjustment_def Let_def)

lemma volatilityAdjustment_cases:
  "volatilityAdjustment v \<in> {Num (- 10), Num 15, Num 5, Num 0}"
  by (simp add: volatilityAdjustment_def)

lemma apyAdjustment_cases:
  "apyAdjustment a \<in> {Num 20, Num 10, Num 5, Num 0}"
  by (simp add: apyAdjustment_def)

lemma riskScore_sum:
  "\<exists>r. jadd (jadd (jadd (Num 50) (protocolAdjustment p)) (volatilityAdjustment v))
          (apyAdjustment a) = Num r
     \<and> 30 \<le> r \<and> r \<le> 95"
  using protocolAdjustment_cases [of p] volatilityAdjustment_cases [of v]
    apyAdjustment_cases [of a]
  by auto

text \<open>
  C9: for every protocol string, the empty one included, and every volatility and apy,
  NaN included (which is read as the default 5), \<^verbatim>\<open>calculateInvestmentRiskScore\<close> returns
  a number in the closed interval from 0 to 100.
\<close>

theorem calculateInvestmentRiskScore_range:
  "(\<exists>r. calculateInvestmentRiskScore protocol volatility apy = Num r \<and> 0 \<le> r \<and> r \<le> 100)
   \<and> calculateInvestmentRiskScore protocol NaN apy
       = calculateInvestmentRiskScore protocol (Num 5) apy
   \<and> calculateInvestmentRiskScore protocol volatility NaN
       = calculateInvestmentRiskScore protocol volatility (Num 5)"
proof -
  obtain r where r:
    "jadd (jadd (jadd (Num 50) (protocolAdjustment protocol))
       (volatilityAdjustment (safeNumber volatility (Num 5))))
       (apyAdjustment (safeNumber apy (Num 5))) = Num r"
    "30 \<le> r" "r \<le> 95"
    using riskScore_sum by blast
  then have "\<exists>r. calculateInvestmentRiskScore protocol volatility apy = Num r \<and> 0 \<le> r \<and> r \<le> 100"
    by (simp add: calculateInvestmentRiskScore_def Let_def Math_max_def Math_min_def)
  then show ?thesis
    by (simp add: calculateInvestmentRiskScore_def Let_def safeNumber_def isNaN_def)
qed

lemma calculateInvestmentRiskScore_examples:
  "calculateInvestmentRiskScore ''Uniswap V3'' (Num 3) (Num 12) = Num 30"
  "calculateInvestmentRiskScore [] NaN NaN = Num 60"
  "calculateInvestmentRiskScore ''NewSwap'' PInf PInf = Num 95"
  by (simp_all add: calculateInvestmentRiskScore_def Let_def Math_max_def Math_min_def
      protocolAdjustment_def volatilityAdjustment_def apyAdjustment_def safeNumber_def
      isNaN_def jgt_def some_def toLowerCase_def lower_char_def)

section \<open>Properties of the yield service\<close>

text \<open>
  C6: \<^verbatim>\<open>getYieldOpportunities\<close> never propagates an error: for every address its outcome
  is a returned array, and when the data retrieval throws, the failure is logged and the
  empty array is returned.
\<close>

theorem getYieldOpportunities_never_raises:
  "(\<exists>opportunities. snd (getYieldOpportunities retrieved address con) = Inr opportunities)
   \<and> getYieldOpportunities (Inl e) address con
       = (con @ [(''Error fetching yield opportunities:'', e)], Inr [])"
  by (simp add: getYieldOpportunities_def tryFetch_def split: sum.splits)

theorem getYieldOpportunities_never_raises_witness:
  "(\<exists>opportunities.
      snd (getYieldOpportunities (Inl (Error ''timeout'')) (Some ''0xabc'') []) = Inr opportunities)
   \<and> getYieldOpportunities (Inl (Error ''timeout'')) (Some ''0xabc'') []
       = ([(''Error fetching yield opportunities:'', Error ''timeout'')], Inr [])"
  using getYieldOpportunities_never_raises
    [of "Inl (Error ''timeout'')" "Some ''0xabc''" "[]" "Error ''timeout''"]
  by simp

text \<open>With the data of the source the call returns the six mock opportunities.\<close>

lemma getYieldOpportunities_mock:
  "getYieldOpportunities (Inr mockYieldData) (Some (a # as)) con = (con, Inr mockYieldData)"
  "getYieldOpportunities (Inr mockYieldData) None con
     = (con, Inr (map (\<lambda>opportunity. opportunity\<lparr>opp_userBalance := Num 0\<rparr>) mockYieldData))"
  by (simp_all add: getYieldOpportunities_def tryFetch_def absent_def)

section \<open>Properties of the projection loop\<close>

declare projectionLoop.simps [simp del]

lemma projectionLoop_step:
  "d \<le> timeHorizon pl \<Longrightarrow>
   projectionLoop pl d currentAmount cumulative data =
     projectionLoop pl (d + 1) (nextAmount pl currentAmount)
       (nextCumulative pl currentAmount cumulative)
       (data @ [pushed pl d currentAmount cumulative])"
  by (subst projectionLoop.simps) simp

lemma projectionLoop_stop:
  "\<not> d \<le> timeHorizon pl \<Longrightarrow> projectionLoop pl d currentAmount cumulative data = data"
  by (subst projectionLoop.simps) simp

lemma projectionLoop_extends:
  "\<exists>ys. projectionLoop pl d c y data = data @ ys"
proof (induction pl d c y data rule: projectionLoop.induct)
  case (1 pl d currentAmount cumulative data)
  show ?case
  proof (cases "d \<le> timeHorizon pl")
    case True
    with "1.IH" show ?thesis
      by (auto simp: projectionLoop_step)
  next
    case False
    then show ?thesis by (simp add: projectionLoop_stop)
  qed
qed

lemma projectionLoop_nth_old:
  assumes "i < length data"
  shows "projectionLoop pl d c y data ! i = data ! i"
proof -
  obtain ys where "projectionLoop pl d c y data = data @ ys"
    using projectionLoop_extends by blast
  with assms show ?thesis by (simp add: nth_append)
qed

lemma projectionLoop_length:
  "length (projectionLoop pl d c y data) = length data + nat (timeHorizon pl + 1 - d)"
proof (induction pl d c y data rule: projectionLoop.induct)
  case (1 pl d currentAmount cumulative data)
  show ?case
  proof (cases "d \<le> timeHorizon pl")
    case True
    with "1.IH" show ?thesis
      by (simp add: projectionLoop_step nat_add_distrib)
  next
    case False
    then show ?thesis by (simp add: projectionLoop_stop)
  qed
qed

text \<open>
  With reinvestment and finite figures, the entry for day \<open>k\<close> holds the amount compounded
  \<open>k - d + 1\<close> times from the loop state at day \<open>d\<close>: the day's yield is added before the
  entry is pushed.
\<close>

lemma projectionLoop_entry:
  "d \<le> k \<Longrightarrow> k \<le> timeHorizon pl \<Longrightarrow> reinvestYield pl \<Longrightarrow>
   effectiveDailyRate pl = Num r \<Longrightarrow> c = Num a \<Longrightarrow>
   day (projectionLoop pl d c y data ! (length data + nat (k - d))) = k \<and>
   totalValue (projectionLoop pl d c y data ! (length data + nat (k - d)))
     = Num (a * (1 + r) ^ (nat (k - d) + 1))"
proof (induction pl d c y data arbitrary: a rule: projectionLoop.induct)
  case (1 pl d currentAmount cumulative data)
  have le: "d \<le> timeHorizon pl" using "1.prems" by simp
  note unfold = projectionLoop_step [OF le, of currentAmount cumulative data]
  have next_amt: "nextAmount pl currentAmount = Num (a * (1 + r))"
    using "1.prems" by (simp add: nextAmount_def dailyYield_def algebra_simps)
  show ?case
  proof (cases "k = d")
    case True
    have "projectionLoop pl d currentAmount cumulative data ! length data
            = pushed pl d currentAmount cumulative"
      unfolding unfold by (simp add: projectionLoop_nth_old)
    then show ?thesis
      using True "1.prems" next_amt by (simp add: pushed_def)
  next
    case False
    then have lt: "d + 1 \<le> k" using "1.prems" by simp
    have idx: "length (data @ [pushed pl d currentAmount cumulative]) + nat (k - (d + 1))
        = length data + nat (k - d)"
      using lt by simp
    have pw: "nat (k - d) = Suc (nat (k - (d + 1)))"
      using lt by simp
    from "1.IH" [OF le lt "1.prems"(2) "1.prems"(3) "1.prems"(4) next_amt]
    show ?thesis
      unfolding unfold idx by (simp add: pw algebra_simps)
  qed
qed

lemma power_366: "(x::real) ^ 366 = x ^ 365 * x"
proof -
  have "(366::nat) = Suc 365" by simp
  then show ?thesis by (simp only: power_Suc2)
qed

lemma claimed_neq:
  "(1000::real) * (1 + claimedDailyRate) ^ 366 \<noteq> 1000 * (1 + claimedDailyRate) ^ 365"
proof -
  have r: "0 < claimedDailyRate" by (simp add: claimedDailyRate_def)
  then have p: "0 < (1 + claimedDailyRate) ^ 365" by simp
  have "(1 + claimedDailyRate) ^ 366
      = (1 + claimedDailyRate) ^ 365 + (1 + claimedDailyRate) ^ 365 * claimedDailyRate"
    by (simp only: power_366 distrib_left mult_1_right)
  moreover have "0 < (1 + claimedDailyRate) ^ 365 * claimedDailyRate"
    using p r by (rule mult_pos_pos)
  ultimately show ?thesis by linarith
qed

text \<open>
  C1: with reinvestment, an APR of 5 percent, an amount of 1000 and a horizon of at least
  365 days, the specification expects the entry for day 365 to hold
  \<open>1000 * (1 + dailyRate) ^ 365\<close>. The loop accrues the yield of day 0 before it pushes
  the entry of day 0, so the entry for day 365 holds one factor more, and differs from
  the expected value.
\<close>

theorem projection_day_365:
  assumes "opp_apr (opportunity pl) = Num 5" and "investmentAmount pl = Num 1000"
    and "reinvestYield pl" and "365 \<le> timeHorizon pl"
  shows "day (generateProjectionData pl ! 365) = 365
    \<and> totalValue (generateProjectionData pl ! 365) = Num (1000 * (1 + claimedDailyRate) ^ 366)
    \<and> totalValue (generateProjectionData pl ! 365) \<noteq> Num (1000 * (1 + claimedDailyRate) ^ 365)"
proof -
  have rate: "effectiveDailyRate pl = Num claimedDailyRate"
    using assms(1)
    by (simp add: effectiveDailyRate_def effectiveApr_def jgt_def claimedDailyRate_def)
  have "day (projectionLoop pl 0 (Num 1000) (Num 0) []
               ! (length ([]::ProjectionPoint list) + nat (365 - 0))) = 365 \<and>
        totalValue (projectionLoop pl 0 (Num 1000) (Num 0) []
               ! (length ([]::ProjectionPoint list) + nat (365 - 0)))
          = Num (1000 * (1 + claimedDailyRate) ^ (nat (365 - 0) + 1))"
    by (rule projectionLoop_entry [OF _ assms(4) assms(3) rate refl]) simp
  then have "day (generateProjectionData pl ! 365) = 365 \<and>
    totalValue (generateProjectionData pl ! 365) = Num (1000 * (1 + claimedDailyRate) ^ 366)"
    by (simp add: generateProjectionData_def assms(2))
  moreover have "Num (1000 * (1 + claimedDailyRate) ^ 366)
      \<noteq> Num (1000 * (1 + claimedDailyRate) ^ 365)"
    using claimed_neq by (simp only: jsnum.inject not_False_eq_True)
  ultimately show ?thesis by auto
qed

theorem projection_day_365_witness:
  "day (generateProjectionData samplePlanner ! 365) = 365
    \<and> totalValue (generateProjectionData samplePlanner ! 365)
        = Num (1000 * (1 + claimedDailyRate) ^ 366)
    \<and> totalValue (generateProjectionData samplePlanner ! 365)
        \<noteq> Num (1000 * (1 + claimedDailyRate) ^ 365)"
  by (rule projection_day_365) (simp_all add: samplePlanner_def mockOpportunity_def)

text \<open>The same off-by-one at the start: the entry for day 0 already holds one day of yield.\<close>

lemma projection_day_0:
  "generateProjectionData samplePlanner ! 0
     = \<lparr>day = 0, totalValue = Num (1000 + 1000 * claimedDailyRate),
        cumulativeYield = Num (1000 * claimedDailyRate),
        netProfit = Num (1000 * claimedDailyRate - 9)\<rparr>"
proof -
  have le: "0 \<le> timeHorizon samplePlanner"
    by (simp add: samplePlanner_def)
  have amount: "investmentAmount samplePlanner = Num 1000"
    by (simp add: samplePlanner_def)
  have "generateProjectionData samplePlanner ! 0
      = pushed samplePlanner 0 (Num 1000) (Num 0)"
    unfolding generateProjectionData_def amount projectionLoop_step [OF le]
    by (simp add: projectionLoop_nth_old)
  then show ?thesis
    by (simp add: pushed_def nextAmount_def nextCumulative_def dailyYield_def
        effectiveDailyRate_def effectiveApr_def jgt_def totalGasCost_def exitGasCost_def
        jsub_def samplePlanner_def mockOpportunity_def claimedDailyRate_def)
qed

section \<open>Properties of the break-even search\<close>

lemma findIndexFrom_none:
  "\<not> list_ex P xs \<Longrightarrow> findIndexFrom P i xs = - 1"
  by (induction xs arbitrary: i) auto

lemma findIndexFrom_found:
  "list_ex P xs \<Longrightarrow>
     \<exists>n<length xs. findIndexFrom P i xs = i + int n \<and> P (xs ! n) \<and> (\<forall>m<n. \<not> P (xs ! m))"
proof (induction xs arbitrary: i)
  case Nil
  then show ?case by simp
next
  case (Cons x xs)
  show ?case
  proof (cases "P x")
    case True
    then show ?thesis by (intro exI [of _ 0]) simp
  next
    case False
    with Cons.prems have "list_ex P xs" by simp
    from Cons.IH [OF this, of "i + 1"] obtain n where
      n: "n < length xs" "findIndexFrom P (i + 1) xs = i + 1 + int n" "P (xs ! n)"
        "\<forall>m<n. \<not> P (xs ! m)"
      by blast
    have "\<forall>m<Suc n. \<not> P ((x # xs) ! m)"
      using False n(4) by (auto simp: less_Suc_eq_0_disj)
    with False n show ?thesis
      by (intro exI [of _ "Suc n"]) simp
  qed
qed

lemma projectionLoop_day:
  "\<forall>j<length data. day (data ! j) = d - int (length data) + int j \<Longrightarrow>
   i < length (projectionLoop pl d c y data) \<Longrightarrow>
   day (projectionLoop pl d c y data ! i) = d - int (length data) + int i"
proof (induction pl d c y data rule: projectionLoop.induct)
  case (1 pl d currentAmount cumulative data)
  show ?case
  proof (cases "d \<le> timeHorizon pl")
    case True
    note unfold = projectionLoop_step [OF True, of currentAmount cumulative data]
    have inv: "\<forall>j<length (data @ [pushed pl d currentAmount cumulative]).
        day ((data @ [pushed pl d currentAmount cumulative]) ! j)
          = d + 1 - int (length (data @ [pushed pl d currentAmount cumulative])) + int j"
      using "1.prems"(1) by (auto simp: nth_append pushed_def less_Suc_eq)
    from "1.IH" [OF True inv] "1.prems"(2) show ?thesis
      unfolding unfold by simp
  next
    case False
    then have "projectionLoop pl d currentAmount cumulative data = data"
      by (simp add: projectionLoop_stop)
    with "1.prems" show ?thesis by simp
  qed
qed

lemma generateProjectionData_length:
  "length (generateProjectionData pl) = nat (timeHorizon pl + 1)"
  by (simp add: generateProjectionData_def projectionLoop_length)

lemma generateProjectionData_day:
  "i < length (generateProjectionData pl) \<Longrightarrow> day (generateProjectionData pl ! i) = int i"
  using projectionLoop_day [of "[]" 0 i pl "investmentAmount pl" "Num 0"]
  by (simp add: generateProjectionData_def)

text \<open>
  C5: the break-even day is found by a linear scan. For every projection data series it
  is the smallest index whose entry has a net profit strictly greater than zero, and -1
  when no entry has one; in the series of the planner the index of an entry is its day.
\<close>

theorem breakEvenDay_least:
  "(if list_ex profitable projectionData
    then 0 \<le> breakEvenDayOf projectionData
       \<and> nat (breakEvenDayOf projectionData) < length projectionData
       \<and> profitable (projectionData ! nat (breakEvenDayOf projectionData))
       \<and> (\<forall>j<nat (breakEvenDayOf projectionData). \<not> profitable (projectionData ! j))
    else breakEvenDayOf projectionData = - 1)
   \<and> (\<forall>i<length (generateProjectionData pl). day (generateProjectionData pl ! i) = int i)
   \<and> breakEvenDay pl = breakEvenDayOf (generateProjectionData pl)"
proof -
  have "0 \<le> breakEvenDayOf projectionData
       \<and> nat (breakEvenDayOf projectionData) < length projectionData
       \<and> profitable (projectionData ! nat (breakEvenDayOf projectionData))
       \<and> (\<forall>j<nat (breakEvenDayOf projectionData). \<not> profitable (projectionData ! j))"
    if "list_ex profitable projectionData"
    using findIndexFrom_found [OF that, of 0]
    by (auto simp: breakEvenDayOf_def findIndex_def)
  moreover have "breakEvenDayOf projectionData = - 1"
    if "\<not> list_ex profitable projectionData"
    using findIndexFrom_none [OF that] by (simp add: breakEvenDayOf_def findIndex_def)
  ultimately show ?thesis
    by (simp add: generateProjectionData_day breakEvenDay_def)
qed

theorem breakEvenDay_least_witness:
  "list_ex profitable sampleSeries
   \<and> breakEvenDayOf sampleSeries = 2
   \<and> profitable (sampleSeries ! 2)
   \<and> \<not> profitable (sampleSeries ! 0) \<and> \<not> profitable (sampleSeries ! 1)
   \<and> breakEvenDayOf (take 2 sampleSeries) = - 1
   \<and> breakEvenDay samplePlanner = breakEvenDayOf (generateProjectionData samplePlanner)"
  using breakEvenDay_least [of sampleSeries samplePlanner]
    breakEvenDay_least [of "take 2 sampleSeries" samplePlanner]
  by (simp add: sampleSeries_def breakEvenDayOf_def findIndex_def profitable_def jgt_def)

section \<open>Properties of the aggregates\<close>

text \<open>Addition of JavaScript numbers is associative and commutative in this model, so a
  left fold is the sum.\<close>

lemma jadd_commute: "jadd x y = jadd y x"
  by (cases x; cases y) auto

lemma jadd_assoc: "jadd (jadd x y) z = jadd x (jadd y z)"
  by (cases x; cases y; cases z) auto

lemma jadd_zero [simp]: "jadd (Num 0) x = x" "jadd x (Num 0) = x"
  by (cases x; simp)+

lemma foldl_jadd_total:
  "foldl (\<lambda>acc x. jadd acc (f x)) a xs = jadd a (total f xs)"
  by (induction xs arbitrary: a) (simp_all add: jadd_assoc)

lemma reduce_sum_total: "reduce_sum f xs = total f xs"
  by (simp add: reduce_sum_def foldl_jadd_total)

lemma aggregate_recomputed: "recomputed (aggregate invs)"
  by (simp add: recomputed_def aggregate_def Let_def reduce_sum_total weightedAverageApy_def)

lemma aggregate_investments [simp]: "investments (aggregate invs) = invs"
  by (simp add: aggregate_def Let_def)

lemma removeInvestment_investments:
  "investments (removeInvestment ident p) = filter (\<lambda>i. inv_id i \<noteq> ident) (investments p)"
  by (simp add: removeInvestment_def Let_def)

lemma simulate_recomputedGuarded:
  "recomputedGuarded (simulateSingleDayWithoutStateUpdate clk p)"
  by (simp add: recomputedGuarded_def simulateSingleDayWithoutStateUpdate_def Let_def
      reduce_sum_total)

lemma total_cong: "(\<And>x. x \<in> set xs \<Longrightarrow> f x = g x) \<Longrightarrow> total f xs = total g xs"
  by (induction xs) auto

lemma guarded_recomputed:
  assumes "recomputedGuarded p" and "\<forall>i\<in>set (investments p). noNaN i"
    and "jgt (totalInvested p) (Num 0)"
  shows "recomputed p"
proof -
  have a: "total (\<lambda>i. safeNumber (inv_amount i) (Num 0)) (investments p)
      = total inv_amount (investments p)"
    using assms(2) by (intro total_cong) (simp add: noNaN_def safeNumber_def isNaN_def)
  have c: "total (\<lambda>i. safeNumber (inv_currentValue i) (Num 0)) (investments p)
      = total inv_currentValue (investments p)"
    using assms(2) by (intro total_cong) (simp add: noNaN_def safeNumber_def isNaN_def)
  have w: "total (\<lambda>i. jmul (safeNumber (inv_apy i) (Num 0)) (safeNumber (inv_amount i) (Num 0)))
        (investments p)
      = total (\<lambda>i. jmul (inv_apy i) (inv_amount i)) (investments p)"
    using assms(2) by (intro total_cong) (simp add: noNaN_def safeNumber_def isNaN_def)
  show ?thesis
    using assms(1,3) by (simp add: recomputed_def recomputedGuarded_def a c w weightedAverageApy_def)
qed

text \<open>
  C3 (amended): after \<^verbatim>\<open>addInvestment\<close>, and after a \<^verbatim>\<open>removeInvestment\<close> that leaves an
  investment, the four aggregates are recomputed from the list as the specification
  states. A \<^verbatim>\<open>removeInvestment\<close> that empties the list sets all four to 0. A simulated day
  recomputes them with NaN read as 0 and with an average APY of 0 unless the total
  invested is positive; when no amount, APY or current value is NaN and the total
  invested is positive, that is the stated relation.
\<close>

theorem aggregates_after_mutation:
  "recomputed (addInvestment now form p)
   \<and> (if investments (removeInvestment ident p) = []
      then aggregatesZero (removeInvestment ident p)
      else recomputed (removeInvestment ident p))
   \<and> recomputedGuarded (simulateSingleDayWithoutStateUpdate clk p)
   \<and> ((\<forall>i\<in>set (investments (simulateSingleDayWithoutStateUpdate clk p)). noNaN i)
        \<and> jgt (totalInvested (simulateSingleDayWithoutStateUpdate clk p)) (Num 0)
      \<longrightarrow> recomputed (simulateSingleDayWithoutStateUpdate clk p))"
proof -
  have "recomputed (addInvestment now form p)"
    by (simp add: addInvestment_def aggregate_recomputed)
  moreover have "if investments (removeInvestment ident p) = []
      then aggregatesZero (removeInvestment ident p)
      else recomputed (removeInvestment ident p)"
  proof (cases "filter (\<lambda>i. inv_id i \<noteq> ident) (investments p) = []")
    case True
    then show ?thesis
      by (simp add: removeInvestment_def Let_def aggregatesZero_def)
  next
    case False
    then show ?thesis
      by (simp add: removeInvestment_def Let_def aggregate_recomputed)
  qed
  ultimately show ?thesis
    using simulate_recomputedGuarded guarded_recomputed by blast
qed


lemma newInvestmentOf_fields [simp]:
  "inv_id (newInvestmentOf now form) = ''inv-'' @ now"
  "inv_protocol (newInvestmentOf now form) = ni_protocol form"
  "inv_amount (newInvestmentOf now form) = ni_amount form"
  "inv_apy (newInvestmentOf now form) = ni_apy form"
  "inv_currentValue (newInvestmentOf now form) = ni_amount form"
  "inv_totalEarnings (newInvestmentOf now form) = Num 0"
  by (simp_all add: newInvestmentOf_def Let_def)

lemma simulateInvestment_keeps [simp]:
  "inv_id (simulateInvestment clk i) = inv_id i"
  "inv_protocol (simulateInvestment clk i) = inv_protocol i"
  "inv_amount (simulateInvestment clk i) = inv_amount i"
  "inv_apy (simulateInvestment clk i) = inv_apy i"
  by (simp_all add: simulateInvestment_def Let_def)

lemma simulate_investments:
  "investments (simulateSingleDayWithoutStateUpdate clk p)
     = map (simulateInvestment clk) (investments p)"
  by (simp add: simulateSingleDayWithoutStateUpdate_def Let_def)

lemma simulate_totalInvested:
  "totalInvested (simulateSingleDayWithoutStateUpdate clk p)
     = total (\<lambda>i. safeNumber (inv_amount i) (Num 0)) (investments p)"
proof -
  have "total (\<lambda>i. safeNumber (inv_amount i) (Num 0)) (map (simulateInvestment clk) xs)
      = total (\<lambda>i. safeNumber (inv_amount i) (Num 0)) xs" for xs
    by (induction xs) simp_all
  then show ?thesis
    by (simp add: simulateSingleDayWithoutStateUpdate_def Let_def reduce_sum_total)
qed

lemma samplePortfolio_investments:
  "investments samplePortfolio = [newInvestmentOf ''1'' sampleForm]"
  "investments shortPortfolio = [newInvestmentOf ''1'' shortForm]"
  by (simp_all add: samplePortfolio_def shortPortfolio_def addInvestment_def aggregate_def
      Let_def emptyPortfolio_def)

text \<open>
  The claim as stated fails in two places: removing the only investment leaves an average
  APY of 0 where the stated quotient is 0 / 0, and a simulated day on a portfolio of one
  investment of -100 at 5 percent leaves an average APY of 0 where the stated quotient
  is 5.
\<close>

theorem aggregates_counterexample:
  "\<not> recomputed (removeInvestment ''inv-1'' samplePortfolio)
   \<and> \<not> recomputed (simulateSingleDayWithoutStateUpdate sampleClock shortPortfolio)"
proof -
  have "averageApy (removeInvestment ''inv-1'' samplePortfolio) = Num 0"
    and "investments (removeInvestment ''inv-1'' samplePortfolio) = []"
    and "totalInvested (removeInvestment ''inv-1'' samplePortfolio) = Num 0"
    by (simp_all add: removeInvestment_def samplePortfolio_investments Let_def)
  then have first: "\<not> recomputed (removeInvestment ''inv-1'' samplePortfolio)"
    by (simp add: recomputed_def weightedAverageApy_def)
  let ?p = "simulateSingleDayWithoutStateUpdate sampleClock shortPortfolio"
  have inv: "totalInvested ?p = Num (- 100)"
    by (simp add: simulate_totalInvested samplePortfolio_investments shortForm_def
        sampleForm_def safeNumber_def isNaN_def)
  have "averageApy ?p = Num 0"
    using simulate_recomputedGuarded [of sampleClock shortPortfolio]
    by (simp add: recomputedGuarded_def inv jgt_def)
  moreover have "weightedAverageApy (investments ?p) (totalInvested ?p) = Num 5"
    by (simp add: inv simulate_investments samplePortfolio_investments weightedAverageApy_def
        shortForm_def sampleForm_def)
  ultimately have "\<not> recomputed ?p"
    by (simp add: recomputed_def)
  with first show ?thesis by simp
qed

lemma sample_simulated_currentValue:
  "inv_currentValue (simulateInvestment sampleClock (newInvestmentOf ''1'' sampleForm))
     = Num (58047 / 584)"
  by (simp add: simulateInvestment_def newInvestmentOf_def sampleForm_def Let_def
      safeNumber_def isNaN_def safeTradingFees_def growthMultiplier_def daysSinceStart_def
      sampleClock_def Math_max_def jsub_def or_else_def falsy_def)

theorem aggregates_after_mutation_witness:
  "recomputed (addInvestment ''2'' sampleForm samplePortfolio)
   \<and> investments (removeInvestment ''inv-1'' samplePortfolio) = []
   \<and> aggregatesZero (removeInvestment ''inv-1'' samplePortfolio)
   \<and> investments (removeInvestment ''inv-2'' samplePortfolio) \<noteq> []
   \<and> recomputed (removeInvestment ''inv-2'' samplePortfolio)
   \<and> recomputedGuarded (simulateSingleDayWithoutStateUpdate sampleClock samplePortfolio)
   \<and> jgt (totalInvested (simulateSingleDayWithoutStateUpdate sampleClock samplePortfolio)) (Num 0)
   \<and> recomputed (simulateSingleDayWithoutStateUpdate sampleClock samplePortfolio)"
proof -
  have gone: "investments (removeInvestment ''inv-1'' samplePortfolio) = []"
    and kept: "investments (removeInvestment ''inv-2'' samplePortfolio) \<noteq> []"
    by (simp_all add: removeInvestment_investments samplePortfolio_investments)
  have pos: "jgt (totalInvested (simulateSingleDayWithoutStateUpdate sampleClock samplePortfolio))
      (Num 0)"
    by (simp add: simulate_totalInvested samplePortfolio_investments sampleForm_def
        safeNumber_def isNaN_def jgt_def)
  have clean: "\<forall>i\<in>set (investments
      (simulateSingleDayWithoutStateUpdate sampleClock samplePortfolio)). noNaN i"
    using sample_simulated_currentValue
    by (auto simp: simulate_investments samplePortfolio_investments noNaN_def sampleForm_def)
  show ?thesis
    using aggregates_after_mutation [of "''2''" sampleForm samplePortfolio "''inv-1''" sampleClock]
      aggregates_after_mutation [of "''2''" sampleForm samplePortfolio "''inv-2''" sampleClock]
    by (simp add: gone kept pos clean)
qed

section \<open>Properties of the simulation\<close>

lemma setPortfolio_fields [simp]:
  "portfolio (setPortfolio p s) = p"
  "storage (setPortfolio p s) = Some (json_copy p)"
  "simulatedPortfolioResult (setPortfolio p s) = simulatedPortfolioResult s"
  "intervals (setPortfolio p s) = intervals s"
  by (simp_all add: setPortfolio_def)

lemma intervalTick_frame:
  "portfolio (intervalTick clk i s) = portfolio s
   \<and> storage (intervalTick clk i s) = storage s
   \<and> portfolioHealth (intervalTick clk i s) = portfolioHealth s
   \<and> recentChanges (intervalTick clk i s) = recentChanges s
   \<and> showChanges (intervalTick clk i s) = showChanges s
   \<and> showSimulationDialog (intervalTick clk i s) = showSimulationDialog s
   \<and> toasts (intervalTick clk i s) = toasts s"
  by (simp add: intervalTick_def Let_def)

lemma fire_frame:
  "portfolio (fire firings s) = portfolio s
   \<and> storage (fire firings s) = storage s
   \<and> portfolioHealth (fire firings s) = portfolioHealth s
   \<and> recentChanges (fire firings s) = recentChanges s
   \<and> showChanges (fire firings s) = showChanges s
   \<and> showSimulationDialog (fire firings s) = showSimulationDialog s
   \<and> toasts (fire firings s) = toasts s"
proof (induction firings arbitrary: s)
  case Nil
  show ?case by simp
next
  case (Cons f rest)
  obtain clk i where f: "f = (clk, i)" by (cases f)
  show ?case
    using Cons.IH [of "intervalTick clk i s"] intervalTick_frame [of clk i s]
    by (simp add: f)
qed

lemma start_frame:
  "portfolio (simulateDailyUpdate clk days True s) = portfolio s
   \<and> storage (simulateDailyUpdate clk days True s) = storage s
   \<and> portfolioHealth (simulateDailyUpdate clk days True s) = portfolioHealth s
   \<and> recentChanges (simulateDailyUpdate clk days True s) = recentChanges s
   \<and> showChanges (simulateDailyUpdate clk days True s) = showChanges s
   \<and> showSimulationDialog (simulateDailyUpdate clk days True s) = showSimulationDialog s
   \<and> toasts (simulateDailyUpdate clk days True s) = toasts s"
  by (simp add: simulateDailyUpdate_def Let_def)

text \<open>
  C2: the animated simulation is cosmetic. For every state of the component, every number
  of days and every sequence of firings of the timers, running the timer-driven simulation
  leaves the portfolio (its investments, totalInvested, totalCurrentValue, totalEarnings
  and averageApy) and the stored value of \<^verbatim>\<open>yield-snap-portfolio\<close> as they were; the
  health, the highlighted changes, the dialog flag and the toasts are untouched as well.
\<close>

theorem visualSimulation_cosmetic:
  "portfolio (visualSimulation clk days firings s) = portfolio s
   \<and> investments (portfolio (visualSimulation clk days firings s)) = investments (portfolio s)
   \<and> totalInvested (portfolio (visualSimulation clk days firings s)) = totalInvested (portfolio s)
   \<and> totalCurrentValue (portfolio (visualSimulation clk days firings s))
       = totalCurrentValue (portfolio s)
   \<and> totalEarnings (portfolio (visualSimulation clk days firings s)) = totalEarnings (portfolio s)
   \<and> averageApy (portfolio (visualSimulation clk days firings s)) = averageApy (portfolio s)
   \<and> storage (visualSimulation clk days firings s) = storage s
   \<and> portfolioHealth (visualSimulation clk days firings s) = portfolioHealth s
   \<and> recentChanges (visualSimulation clk days firings s) = recentChanges s
   \<and> showChanges (visualSimulation clk days firings s) = showChanges s
   \<and> showSimulationDialog (visualSimulation clk days firings s) = showSimulationDialog s
   \<and> toasts (visualSimulation clk days firings s) = toasts s"
  using fire_frame [of firings "simulateDailyUpdate clk days True s"] start_frame [of clk days s]
  by (simp add: visualSimulation_def)

text \<open>
  A single interval, left to fire, simulates the requested days on its working copy and
  then clears itself; the result is kept for \<^verbatim>\<open>applySimulationToPortfolio\<close>, a separate
  action of the user, which is what writes it to the portfolio and the local storage.
\<close>

lemma intervalTick_advance:
  assumes "intervals s = [run]" and "currentDay run < run_days run"
  shows "\<exists>run'. intervals (intervalTick clk 0 s) = [run']
     \<and> run_days run' = run_days run \<and> currentDay run' = currentDay run + 1
     \<and> simulatedPortfolio run'
         = simulateSingleDayWithoutStateUpdate clk (simulatedPortfolio run)"
  using assms by (simp add: intervalTick_def Let_def)

lemma fire_advance:
  "intervals s = [run] \<Longrightarrow> currentDay run + int k \<le> run_days run \<Longrightarrow>
   \<exists>run'. intervals (fire (replicate k (clk, 0)) s) = [run']
     \<and> run_days run' = run_days run \<and> currentDay run' = currentDay run + int k
     \<and> simulatedPortfolio run' = simulateDays clk k (simulatedPortfolio run)"
proof (induction k arbitrary: s run)
  case 0
  then show ?case by simp
next
  case (Suc k)
  from Suc.prems have lt: "currentDay run < run_days run" by simp
  from intervalTick_advance [OF Suc.prems(1) lt, of clk] obtain run1 where
    r1: "intervals (intervalTick clk 0 s) = [run1]" "run_days run1 = run_days run"
      "currentDay run1 = currentDay run + 1"
      "simulatedPortfolio run1 = simulateSingleDayWithoutStateUpdate clk (simulatedPortfolio run)"
    by blast
  have "currentDay run1 + int k \<le> run_days run1"
    using Suc.prems(2) r1 by simp
  from Suc.IH [OF r1(1) this] r1 show ?case
    by auto
qed

lemma intervalTick_finish:
  assumes "intervals s = [run]" and "run_days run \<le> currentDay run"
  shows "intervals (intervalTick clk 0 s) = []
     \<and> simulationComplete (intervalTick clk 0 s)
     \<and> \<not> isSimulating (intervalTick clk 0 s)
     \<and> simulatedPortfolioResult (intervalTick clk 0 s) = Some (simulatedPortfolio run)"
  using assms by (simp add: intervalTick_def Let_def)

lemma fire_append: "fire (xs @ ys) s = fire ys (fire xs s)"
  by (induction xs arbitrary: s) auto

lemma visualSimulation_completes:
  assumes "intervals s = []" and "0 < days" and "investments (portfolio s) \<noteq> []"
  shows "intervals (visualSimulation clk days (replicate (nat days + 1) (clk, 0)) s) = []
     \<and> simulationComplete (visualSimulation clk days (replicate (nat days + 1) (clk, 0)) s)
     \<and> \<not> isSimulating (visualSimulation clk days (replicate (nat days + 1) (clk, 0)) s)
     \<and> simulatedPortfolioResult (visualSimulation clk days (replicate (nat days + 1) (clk, 0)) s)
         = Some (simulateDays clk (nat days) (json_copy (portfolio s)))"
proof -
  let ?s0 = "simulateDailyUpdate clk days True s"
  let ?run = "\<lparr>run_days = days, currentDay = 0, simulatedPortfolio = json_copy (portfolio s),
      history = [\<lparr>hp_offset = 0, hp_value = totalCurrentValue (portfolio s)\<rparr>]\<rparr>"
  have s0: "intervals ?s0 = [?run]"
    using assms by (simp add: simulateDailyUpdate_def Let_def)
  have "currentDay ?run + int (nat days) \<le> run_days ?run"
    using assms(2) by simp
  from fire_advance [OF s0 this, of clk] obtain run' where
    r: "intervals (fire (replicate (nat days) (clk, 0)) ?s0) = [run']"
      "run_days run' = days" "currentDay run' = days"
      "simulatedPortfolio run' = simulateDays clk (nat days) (json_copy (portfolio s))"
    using assms(2) by auto
  have split: "replicate (nat days + 1) (clk, 0) = replicate (nat days) (clk, 0) @ [(clk, 0)]"
    by (simp add: replicate_append_same)
  have "run_days run' \<le> currentDay run'" using r by simp
  from intervalTick_finish [OF r(1) this, of clk] r(4) show ?thesis
    unfolding visualSimulation_def split fire_append by simp
qed

lemma applySimulation_writes:
  "simulatedPortfolioResult s = Some r \<Longrightarrow>
   portfolio (applySimulationToPortfolio s) = r
   \<and> storage (applySimulationToPortfolio s) = Some (json_copy r)"
  by (simp add: applySimulationToPortfolio_def Let_def setPortfolio_def)


lemma trackerWithOne_state:
  "intervals trackerWithOne = []"
  "investments (portfolio trackerWithOne) = [newInvestmentOf ''1'' sampleForm]"
  by (simp_all add: trackerWithOne_def initialTracker_def addInvestment_def emptyPortfolio_def
      setPortfolio_def aggregate_def Let_def)

theorem visualSimulation_cosmetic_witness:
  "portfolio (visualSimulation sampleClock 2 (replicate 3 (sampleClock, 0)) trackerWithOne)
     = portfolio trackerWithOne
   \<and> storage (visualSimulation sampleClock 2 (replicate 3 (sampleClock, 0)) trackerWithOne)
     = storage trackerWithOne
   \<and> simulationComplete
       (visualSimulation sampleClock 2 (replicate 3 (sampleClock, 0)) trackerWithOne)
   \<and> simulatedPortfolioResult
       (visualSimulation sampleClock 2 (replicate 3 (sampleClock, 0)) trackerWithOne)
     = Some (simulateDays sampleClock 2 (json_copy (portfolio trackerWithOne)))"
proof -
  have three: "replicate 3 (sampleClock, 0::nat) = replicate (nat 2 + 1) (sampleClock, 0)"
    by (simp add: numeral_3_eq_3)
  have two: "simulateDays sampleClock 2 p = simulateDays sampleClock (nat 2) p" for p
    by simp
  show ?thesis
    unfolding three two
    using visualSimulation_cosmetic
        [of sampleClock 2 "replicate (nat 2 + 1) (sampleClock, 0)" trackerWithOne]
      visualSimulation_completes [of trackerWithOne 2 sampleClock]
    by (simp only: trackerWithOne_state) simp
qed

lemma zeroWhenEmpty_empty: "zeroWhenEmpty emptyPortfolio"
  by (simp add: zeroWhenEmpty_def emptyPortfolio_def aggregatesZero_def)

lemma zeroWhenEmpty_json: "zeroWhenEmpty p \<Longrightarrow> zeroWhenEmpty (json_copy p)"
  by (simp add: zeroWhenEmpty_def json_copy_def aggregatesZero_def json_num_def)

lemma zeroWhenEmpty_add: "zeroWhenEmpty (addInvestment now form p)"
  by (simp add: zeroWhenEmpty_def addInvestment_def aggregate_def Let_def)

lemma zeroWhenEmpty_remove: "zeroWhenEmpty (removeInvestment ident p)"
  by (simp add: zeroWhenEmpty_def removeInvestment_def aggregate_def Let_def aggregatesZero_def)

lemma zeroWhenEmpty_simulate: "zeroWhenEmpty (simulateSingleDayWithoutStateUpdate clk p)"
  by (simp add: zeroWhenEmpty_def simulateSingleDayWithoutStateUpdate_def Let_def
      aggregatesZero_def reduce_sum_def jsub_def jgt_def)

lemma zeroWhenEmpty_simulateDays:
  "zeroWhenEmpty p \<Longrightarrow> zeroWhenEmpty (simulateDays clk n p)"
  by (induction n arbitrary: p) (simp_all add: zeroWhenEmpty_simulate)

text \<open>
  The invariant: the portfolio, a stored simulation result and the working copy of every
  running interval have zero aggregates when they hold no investment.
\<close>

lemma reachable_invariant:
  "reachable s \<Longrightarrow>
     zeroWhenEmpty (portfolio s)
     \<and> (\<forall>r. simulatedPortfolioResult s = Some r \<longrightarrow> zeroWhenEmpty r)
     \<and> (\<forall>run\<in>set (intervals s). zeroWhenEmpty (simulatedPortfolio run))"
proof (induction rule: reachable.induct)
  case initial
  show ?case by (simp add: initialTracker_def zeroWhenEmpty_empty)
next
  case (step s a)
  then have p: "zeroWhenEmpty (portfolio s)"
    and r: "\<And>r. simulatedPortfolioResult s = Some r \<Longrightarrow> zeroWhenEmpty r"
    and i: "\<And>run. run \<in> set (intervals s) \<Longrightarrow> zeroWhenEmpty (simulatedPortfolio run)"
    by auto
  show ?case
  proof (cases a)
    case (AddInvestment now form)
    then show ?thesis using r i by (simp add: zeroWhenEmpty_add)
  next
    case (RemoveInvestment ident)
    then show ?thesis using r i by (simp add: zeroWhenEmpty_remove)
  next
    case (QuickSimulate clk days)
    have "zeroWhenEmpty (simulateDays clk (nat days) (json_copy (portfolio s)))"
      using p by (simp add: zeroWhenEmpty_simulateDays zeroWhenEmpty_json)
    then show ?thesis
      using QuickSimulate p r i by (auto simp: simulateDailyUpdate_def Let_def)
  next
    case (StartVisualSimulation clk days)
    have "zeroWhenEmpty (json_copy (portfolio s))"
      using p by (rule zeroWhenEmpty_json)
    then show ?thesis
      using StartVisualSimulation p i by (auto simp: simulateDailyUpdate_def Let_def)
  next
    case (IntervalFires clk k)
    show ?thesis
    proof (cases "k < length (intervals s)")
      case False
      then show ?thesis using IntervalFires p r i by (auto simp: intervalTick_def)
    next
      case True
      then have run: "zeroWhenEmpty (simulatedPortfolio (intervals s ! k))"
        using i by simp
      have rest: "run \<in> set (take k (intervals s) @ drop (Suc k) (intervals s))
          \<Longrightarrow> zeroWhenEmpty (simulatedPortfolio run)" for run
        using i by (auto dest: in_set_takeD in_set_dropD)
      have upd: "run \<in> set ((intervals s)[k := x]) \<Longrightarrow> zeroWhenEmpty (simulatedPortfolio x)
          \<Longrightarrow> zeroWhenEmpty (simulatedPortfolio run)" for run x
        using i set_update_subset_insert [of "intervals s" k x] by auto
      show ?thesis
      proof (cases "run_days (intervals s ! k) \<le> currentDay (intervals s ! k)")
        case over: True
        have "intervalTick clk k s =
           s\<lparr>intervals := take k (intervals s) @ drop (Suc k) (intervals s),
             isSimulating := False,
             simulatedPortfolioResult := Some (simulatedPortfolio (intervals s ! k)),
             simulationSummary :=
               (if length (history (intervals s ! k)) > 1
                then Some (summaryOf (history (intervals s ! k)) (run_days (intervals s ! k)))
                else simulationSummary s),
             simulationComplete := True\<rparr>"
          using True over by (simp add: intervalTick_def Let_def)
        then show ?thesis
          using IntervalFires p run rest by simp
      next
        case running: False
        let ?x = "(intervals s ! k)
             \<lparr>simulatedPortfolio :=
                simulateSingleDayWithoutStateUpdate clk (simulatedPortfolio (intervals s ! k)),
              currentDay := currentDay (intervals s ! k) + 1,
              history :=
                history (intervals s ! k) @
                  [\<lparr>hp_offset = currentDay (intervals s ! k) + 1,
                    hp_value = totalCurrentValue
                      (simulateSingleDayWithoutStateUpdate clk
                        (simulatedPortfolio (intervals s ! k)))\<rparr>]\<rparr>"
        have t: "intervals (intervalTick clk k s) = (intervals s)[k := ?x]"
          "simulatedPortfolioResult (intervalTick clk k s) = simulatedPortfolioResult s"
          "portfolio (intervalTick clk k s) = portfolio s"
          using True running by (simp_all add: intervalTick_def Let_def)
        have "zeroWhenEmpty (simulatedPortfolio ?x)"
          by (simp add: zeroWhenEmpty_simulate)
        then show ?thesis
          using IntervalFires p r upd [of _ ?x] by (auto simp: t)
      qed
    qed
  next
    case ApplySimulation
    then show ?thesis
      using p r i
      by (auto simp: applySimulationToPortfolio_def Let_def split: option.splits)
  next
    case CancelSimulation
    then show ?thesis using p r i by simp
  next
    case RunNewSimulation
    then show ?thesis using p r i by simp
  qed
qed

text \<open>
  C4: in every state reachable from the initial empty portfolio by adding and removing
  investments and by simulation steps (quick, animated, applied), a portfolio without
  investments has all four aggregates equal to zero.
\<close>

theorem empty_portfolio_zero:
  "reachable s \<Longrightarrow> investments (portfolio s) = [] \<Longrightarrow>
     totalInvested (portfolio s) = Num 0 \<and> totalCurrentValue (portfolio s) = Num 0
     \<and> totalEarnings (portfolio s) = Num 0 \<and> averageApy (portfolio s) = Num 0"
  using reachable_invariant [of s] by (simp add: zeroWhenEmpty_def aggregatesZero_def)

lemma trackerEmptied_reachable: "reachable trackerEmptied"
  unfolding trackerEmptied_def trackerWithOne_def
  by (intro reachable.step reachable.initial)

theorem empty_portfolio_zero_witness:
  "reachable trackerEmptied \<and> investments (portfolio trackerWithOne) \<noteq> []
   \<and> investments (portfolio trackerEmptied) = []
   \<and> totalInvested (portfolio trackerEmptied) = Num 0
   \<and> totalCurrentValue (portfolio trackerEmptied) = Num 0
   \<and> totalEarnings (portfolio trackerEmptied) = Num 0
   \<and> averageApy (portfolio trackerEmptied) = Num 0"
proof -
  have gone: "investments (portfolio trackerEmptied) = []"
    by (simp add: trackerEmptied_def trackerWithOne_state removeInvestment_def Let_def
        newInvestmentOf_def)
  show ?thesis
    using empty_portfolio_zero [OF trackerEmptied_reachable gone] trackerEmptied_reachable gone
    by (simp add: trackerWithOne_state)
qed

section \<open>Properties of the diversification score\<close>

subsection \<open>The distribution of a portfolio with one protocol\<close>


lemma total_append: "total f (xs @ ys) = jadd (total f xs) (total f ys)"
  by (induction xs) (simp_all add: jadd_assoc)

lemma jadd_not_NaN: "jadd x y \<noteq> NaN \<Longrightarrow> x \<noteq> NaN \<and> y \<noteq> NaN"
  by (cases x; cases y) auto

lemma or_else_zero: "h \<noteq> NaN \<Longrightarrow> or_else h (Num 0) = h"
  by (auto simp: or_else_def falsy_def)

lemma jdiv_NaN [simp]: "jdiv x NaN = NaN"
  by (cases x) simp_all

lemma assign_not_Nil: "assign d k v \<noteq> []"
  by (cases d) (auto split: if_splits)

lemma protocolDistribution_snoc:
  "protocolDistribution (xs @ [x]) = accumulate (protocolDistribution xs) x"
  by (simp add: protocolDistribution_def)

lemma not_inherited: "\<not> arr_includes inheritedMethods ''__proto__''"
  by (simp add: arr_includes_def inheritedMethods_def)

text \<open>
  An investment whose protocol is named \<^verbatim>\<open>__proto__\<close> leaves no entry in the distribution;
  with any other name the distribution has an entry once an investment has been read.
\<close>

lemma proto_distribution:
  "\<forall>i\<in>set xs. inv_protocol i = ''__proto__'' \<Longrightarrow> protocolDistribution xs = []"
  by (induction xs rule: rev_induct) (simp_all add: protocolDistribution_snoc accumulate_def
      protocolDistribution_def)

lemma distribution_not_empty:
  assumes "xs \<noteq> []" and "''__proto__'' \<notin> set (map inv_protocol xs)"
  shows "protocolDistribution xs \<noteq> []"
proof -
  obtain ys y where xs: "xs = ys @ [y]"
    using assms(1) by (cases xs rule: rev_cases) auto
  with assms(2) have "inv_protocol y \<noteq> ''__proto__''" by auto
  then show ?thesis
    by (simp add: xs protocolDistribution_snoc accumulate_def Let_def assign_not_Nil
        split: option.splits held.splits)
qed

text \<open>
  With one protocol the distribution has one entry: a text when the name is that of an
  inherited method, otherwise the sum of the amounts (when that sum is a number or an
  infinity; after a NaN the guard \<^verbatim>\<open>|| 0\<close> restarts the sum).
\<close>

lemma single_text:
  assumes "xs \<noteq> []" and "\<forall>i\<in>set xs. inv_protocol i = k" and "arr_includes inheritedMethods k"
  shows "protocolDistribution xs = [(k, Text)]"
  using assms
proof (induction xs rule: rev_induct)
  case Nil
  then show ?case by simp
next
  case (snoc x xs)
  have k: "k \<noteq> ''__proto__''" using snoc.prems(3) not_inherited by auto
  show ?case
  proof (cases "xs = []")
    case True
    then show ?thesis
      using snoc.prems k
      by (simp add: protocolDistribution_snoc accumulate_def protocolDistribution_def)
  next
    case False
    with snoc have "protocolDistribution xs = [(k, Text)]" by simp
    then show ?thesis
      using snoc.prems k by (simp add: protocolDistribution_snoc accumulate_def)
  qed
qed

lemma single_amount:
  assumes "xs \<noteq> []" and "\<forall>i\<in>set xs. inv_protocol i = k" and "k \<noteq> ''__proto__''"
    and "\<not> arr_includes inheritedMethods k" and "total inv_amount xs \<noteq> NaN"
  shows "protocolDistribution xs = [(k, Amount (total inv_amount xs))]"
  using assms
proof (induction xs rule: rev_induct)
  case Nil
  then show ?case by simp
next
  case (snoc x xs)
  from snoc.prems(5) have before: "total inv_amount xs \<noteq> NaN"
    using jadd_not_NaN [of "total inv_amount xs" "total inv_amount [x]"]
    by (simp add: total_append)
  show ?case
  proof (cases "xs = []")
    case True
    then show ?thesis
      using snoc.prems
      by (simp add: protocolDistribution_snoc accumulate_def protocolDistribution_def)
  next
    case False
    with snoc before have "protocolDistribution xs = [(k, Amount (total inv_amount xs))]"
      by simp
    then show ?thesis
      using snoc.prems before
      by (simp add: protocolDistribution_snoc accumulate_def or_else_zero total_append)
  qed
qed

lemma single_shape:
  assumes "xs \<noteq> []" and "\<forall>i\<in>set xs. inv_protocol i = k" and "k \<noteq> ''__proto__''"
  shows "\<exists>v. protocolDistribution xs = [(k, v)]"
  using assms
proof (induction xs rule: rev_induct)
  case Nil
  then show ?case by simp
next
  case (snoc x xs)
  show ?case
  proof (cases "xs = []")
    case True
    then show ?thesis
      using snoc.prems
      by (simp add: protocolDistribution_snoc accumulate_def protocolDistribution_def)
  next
    case False
    with snoc obtain v where "protocolDistribution xs = [(k, v)]" by auto
    then show ?thesis
      using snoc.prems
      by (cases v) (simp_all add: protocolDistribution_snoc accumulate_def)
  qed
qed

subsection \<open>The score of a portfolio with one protocol\<close>

lemma hhiOf_total:
  "hhiOf p = total (\<lambda>a. jmul (jdiv (toNumber a) (totalInvested p))
                          (jdiv (toNumber a) (totalInvested p)))
               (map snd (protocolDistribution (investments p)))"
  by (simp add: hhiOf_def Let_def foldl_jadd_total)

lemma size_distinct: "protocolsSize (investments p) = distinctProtocols p"
  by (simp add: protocolsSize_def distinctProtocols_def length_remdups_card_conv)

lemma single_perfectHHI:
  "singleProtocol p \<Longrightarrow> perfectHHI p = Num 1"
  by (simp add: singleProtocol_def perfectHHI_def size_distinct)

lemma divide_by_zero: "jdiv x (Num 0) \<in> {NaN, PInf, NInf}"
  by (cases x) auto

lemma not_finite_score:
  "y \<in> {NaN, PInf, NInf} \<Longrightarrow>
     Math_round (jmul (jsub (Num 1) y) (Num 100)) \<in> {NaN, PInf, NInf}"
  by (auto simp: jsub_def)

lemma diversificationResult_set:
  "investments p \<noteq> [] \<Longrightarrow> protocolDistribution (investments p) \<noteq> [] \<Longrightarrow>
     diversificationResult p = Inr (diversificationOf p)"
  by (simp add: diversificationResult_def calculatePortfolioHealth_def)

lemma diversificationResult_thrown:
  "investments p \<noteq> [] \<Longrightarrow> protocolDistribution (investments p) = [] \<Longrightarrow>
     diversificationResult p = Inl TypeError"
  by (simp add: diversificationResult_def calculatePortfolioHealth_def)

lemma single_key:
  assumes "singleProtocol p"
  obtains k where "\<forall>i\<in>set (investments p). inv_protocol i = k"
    and "set (map inv_protocol (investments p)) = {k}"
proof -
  from assms have "card (set (map inv_protocol (investments p))) = 1"
    by (simp only: singleProtocol_def distinctProtocols_def)
  then obtain k where k: "set (map inv_protocol (investments p)) = {k}"
    by (rule card_1_singletonE)
  then have "\<forall>i\<in>set (investments p). inv_protocol i = k"
    by auto
  with k that show ?thesis by blast
qed

lemma single_hhi_consistent:
  assumes "investments p \<noteq> []" and "singleProtocol p"
    and "''__proto__'' \<notin> set (map inv_protocol (investments p))"
    and "totalInvested p = reduce_sum inv_amount (investments p)"
  shows "hhiOf p = Num 1 \<or> hhiOf p = NaN"
proof -
  obtain k where all: "\<forall>i\<in>set (investments p). inv_protocol i = k"
    and ks: "set (map inv_protocol (investments p)) = {k}"
    using single_key [OF assms(2)] by blast
  from ks assms(3) have k: "k \<noteq> ''__proto__''" by auto
  have t: "totalInvested p = total inv_amount (investments p)"
    by (simp add: assms(4) reduce_sum_total)
  show ?thesis
  proof (cases "arr_includes inheritedMethods k")
    case True
    from single_text [OF assms(1) all True] show ?thesis
      by (simp add: hhiOf_total)
  next
    case other: False
    show ?thesis
    proof (cases "total inv_amount (investments p) = NaN")
      case True
      obtain v where "protocolDistribution (investments p) = [(k, v)]"
        using single_shape [OF assms(1) all k] by blast
      then show ?thesis
        using True by (simp add: hhiOf_total t)
    next
      case False
      from single_amount [OF assms(1) all k other False]
      have "hhiOf p = jmul (jdiv (totalInvested p) (totalInvested p))
                        (jdiv (totalInvested p) (totalInvested p))"
        by (simp add: hhiOf_total t)
      then show ?thesis
        by (cases "totalInvested p") auto
    qed
  qed
qed

text \<open>
  C8 (amended): for every non-empty portfolio in which all investments share a single protocol
  (n = 1) whose name is not \<^verbatim>\<open>__proto__\<close>, the normalization of the diversification score
  divides by zero (worstHHI - perfectHHI = 0); \<^verbatim>\<open>calculatePortfolioHealth\<close> returns and the
  diversificationScore it sets is NaN or an infinity, never a number of the range 0 to 100.
  It is NaN whenever totalInvested is the sum of the amounts of the investments, as
  \<^verbatim>\<open>addInvestment\<close> and \<^verbatim>\<open>removeInvestment\<close> compute it. The statement does not depend on
  rounding: the one share is x / x, and a division by zero gives no finite number.
\<close>

theorem single_protocol_not_a_score:
  assumes "investments p \<noteq> []" and "singleProtocol p"
    and "''__proto__'' \<notin> set (map inv_protocol (investments p))"
  shows "jsub worstHHI (perfectHHI p) = Num 0
    \<and> diversificationResult p = Inr (diversificationOf p)
    \<and> diversificationOf p \<in> {NaN, PInf, NInf}
    \<and> (totalInvested p = reduce_sum inv_amount (investments p)
         \<longrightarrow> diversificationResult p = Inr NaN)"
proof -
  have zero: "jsub worstHHI (perfectHHI p) = Num 0"
    using assms(2) by (simp add: single_perfectHHI worstHHI_def jsub_def)
  have norm: "normalizedHHI p = jdiv (jsub (hhiOf p) (Num 1)) (Num 0)"
    using assms(2) zero by (simp add: normalizedHHI_def single_perfectHHI)
  have set: "diversificationResult p = Inr (diversificationOf p)"
    using assms(1) distribution_not_empty [OF assms(1,3)]
    by (rule diversificationResult_set)
  have "normalizedHHI p \<in> {NaN, PInf, NInf}"
    unfolding norm by (rule divide_by_zero)
  then have "diversificationOf p \<in> {NaN, PInf, NInf}"
    unfolding diversificationOf_def by (rule not_finite_score)
  moreover have "diversificationOf p = NaN"
    if "totalInvested p = reduce_sum inv_amount (investments p)"
    using single_hhi_consistent [OF assms that]
    by (auto simp: diversificationOf_def norm jsub_def)
  ultimately show ?thesis
    using zero set by simp
qed

subsection \<open>Sample portfolios\<close>

text \<open>
  The figures of the sample portfolios (amounts 50, 100, 150 under the totals 100 and 200,
  shares 1/4, 1/2, 3/4 and 1) are exact in binary floating point, and so is every
  intermediate result of the score computed from them.
\<close>

lemma investmentIn_fields [simp]:
  "inv_protocol (investmentIn now protocol amount) = protocol"
  "inv_amount (investmentIn now protocol amount) = amount"
  by (simp_all add: investmentIn_def)

lemma sample_investments:
  "investments twoProtocols
     = [investmentIn ''1'' ''Aave'' (Num 100), investmentIn ''2'' ''Curve'' (Num 50),
        investmentIn ''3'' ''Aave'' (Num 50)]"
  "investments staleTotal = [investmentIn ''1'' ''Aave'' (Num 100)]"
  "investments protoOne = [newInvestmentOf ''1'' (sampleForm\<lparr>ni_protocol := ''__proto__''\<rparr>)]"
  "investments protoTwo
     = [newInvestmentOf ''1'' (sampleForm\<lparr>ni_protocol := ''Aave''\<rparr>),
        newInvestmentOf ''2'' (sampleForm\<lparr>ni_protocol := ''__proto__''\<rparr>)]"
  by (simp_all add: twoProtocols_def staleTotal_def protoOne_def protoTwo_def
      addInvestment_def emptyPortfolio_def)

lemma sample_distributions:
  "protocolDistribution (investments twoProtocols)
     = [(''Aave'', Amount (Num 150)), (''Curve'', Amount (Num 50))]"
  "protocolDistribution (investments staleTotal) = [(''Aave'', Amount (Num 100))]"
  "protocolDistribution (investments protoOne) = []"
  "protocolDistribution (investments protoTwo) = [(''Aave'', Amount (Num 100))]"
  by (simp_all add: sample_investments protocolDistribution_def accumulate_def or_else_def
      falsy_def arr_includes_def inheritedMethods_def sampleForm_def)

lemma sample_sizes:
  "protocolsSize (investments twoProtocols) = 2"
  "protocolsSize (investments staleTotal) = 1"
  "protocolsSize (investments protoOne) = 1"
  "protocolsSize (investments protoTwo) = 2"
  by (simp_all add: sample_investments protocolsSize_def)

lemma sample_totals:
  "totalInvested twoProtocols = Num 200"
  "totalInvested staleTotal = Num 200"
  "totalInvested protoOne = Num 100"
  "totalInvested protoTwo = Num 200"
  by (simp_all add: twoProtocols_def staleTotal_def protoOne_def protoTwo_def
      addInvestment_def emptyPortfolio_def aggregate_def Let_def reduce_sum_def sampleForm_def)

lemma sample_scores:
  "diversificationOf twoProtocols = Num 75"
  "diversificationOf staleTotal = PInf"
  "diversificationOf protoOne = PInf"
  "diversificationOf protoTwo = Num 150"
  by (simp_all add: diversificationOf_def normalizedHHI_def perfectHHI_def worstHHI_def
      hhiOf_def sample_distributions sample_sizes sample_totals Let_def jsub_def)

lemma sample_claimed:
  "claimedDiversification twoProtocols = Num 75"
  "claimedDiversification protoTwo = Num 100"
  by (simp_all add: claimedDiversification_def HHI_def shareOf_def investedIn_def
      size_distinct [symmetric] sample_sizes sample_totals Let_def jsub_def,
      simp_all add: sample_investments sampleForm_def)

text \<open>
  C7: the diversification score is Herfindahl-Hirschman-index based: for every non-empty
  portfolio with positive totalInvested, \<^verbatim>\<open>calculatePortfolioHealth\<close> sets diversificationScore
  to round((1 - (HHI - 1/n) / (1 - 1/n)) * 100), where HHI is the sum over the protocols of the
  squared share of the invested amount and n is the number of distinct protocols. The code
  does not do so for \<^term>\<open>protoTwo\<close>, the portfolio obtained from the empty one by adding 100
  in the protocol \<^verbatim>\<open>Aave\<close> and 100 in a protocol named \<^verbatim>\<open>__proto__\<close>: it has two distinct
  protocols and totalInvested 200, the formula gives the score 100 (two equal shares), and
  the code, whose distribution has lost the second protocol, sets the score 150, outside the
  range 0 to 100 that its comments announce.
\<close>

theorem diversification_prototype_key:
  "investments protoTwo \<noteq> [] \<and> jgt (totalInvested protoTwo) (Num 0)
   \<and> distinctProtocols protoTwo = 2
   \<and> diversificationResult protoTwo = Inr (Num 150)
   \<and> claimedDiversification protoTwo = Num 100"
proof -
  have "distinctProtocols protoTwo = 2"
    by (simp add: size_distinct [symmetric] sample_sizes)
  moreover have "diversificationResult protoTwo = Inr (diversificationOf protoTwo)"
    by (rule diversificationResult_set) (simp_all add: sample_distributions, simp add: sample_investments)
  ultimately show ?thesis
    by (simp add: sample_investments(4) sample_totals jgt_def sample_claimed sample_scores)
qed

text \<open>
  With ordinary protocol names the code and the formula agree, here on 150 in \<^verbatim>\<open>Aave\<close> and
  50 in \<^verbatim>\<open>Curve\<close>.
\<close>

lemma diversification_ordinary_example:
  "diversificationResult twoProtocols = Inr (Num 75)"
  "claimedDiversification twoProtocols = Num 75"
proof -
  have "diversificationResult twoProtocols = Inr (diversificationOf twoProtocols)"
    by (rule diversificationResult_set) (simp_all add: sample_distributions, simp add: sample_investments)
  then show "diversificationResult twoProtocols = Inr (Num 75)"
    by (simp add: sample_scores)
  show "claimedDiversification twoProtocols = Num 75"
    by (rule sample_claimed)
qed

text \<open>
  The score of a portfolio with one protocol is not always NaN: \<^term>\<open>staleTotal\<close> holds one
  investment of 100 under a stored totalInvested of 200, and its score is +Infinity.
\<close>

theorem single_protocol_counterexample:
  "investments staleTotal \<noteq> [] \<and> singleProtocol staleTotal
   \<and> ''__proto__'' \<notin> set (map inv_protocol (investments staleTotal))
   \<and> diversificationResult staleTotal = Inr PInf"
proof -
  have "singleProtocol staleTotal"
    by (simp add: singleProtocol_def size_distinct [symmetric] sample_sizes)
  moreover have "diversificationResult staleTotal = Inr (diversificationOf staleTotal)"
    by (rule diversificationResult_set) (simp_all add: sample_distributions, simp add: sample_investments)
  ultimately show ?thesis
    by (simp add: sample_investments(2) sample_scores)
qed

theorem single_protocol_not_a_score_witness:
  "investments samplePortfolio \<noteq> [] \<and> singleProtocol samplePortfolio
   \<and> ''__proto__'' \<notin> set (map inv_protocol (investments samplePortfolio))
   \<and> totalInvested samplePortfolio = reduce_sum inv_amount (investments samplePortfolio)
   \<and> jsub worstHHI (perfectHHI samplePortfolio) = Num 0
   \<and> diversificationResult samplePortfolio = Inr NaN"
proof -
  have ne: "investments samplePortfolio \<noteq> []"
    by (simp add: samplePortfolio_investments)
  have one: "singleProtocol samplePortfolio"
    by (simp add: singleProtocol_def distinctProtocols_def samplePortfolio_investments)
  have name: "''__proto__'' \<notin> set (map inv_protocol (investments samplePortfolio))"
    by (simp add: samplePortfolio_investments sampleForm_def)
  have tot: "totalInvested samplePortfolio = reduce_sum inv_amount (investments samplePortfolio)"
    by (simp add: samplePortfolio_def addInvestment_def aggregate_def Let_def)
  from single_protocol_not_a_score [OF ne one name] tot ne one name show ?thesis
    by auto
qed

text \<open>
  When every investment is in a protocol named \<^verbatim>\<open>__proto__\<close> the distribution is empty,
  \<^verbatim>\<open>calculatePortfolioHealth\<close> throws a TypeError where it reads the largest entry, and no
  health is set. For \<^term>\<open>protoOne\<close> the score computed before the throw is +Infinity.
\<close>

lemma proto_only_throws:
  assumes "investments p \<noteq> []" and "\<forall>i\<in>set (investments p). inv_protocol i = ''__proto__''"
  shows "calculatePortfolioHealth p = Inl TypeError"
    and "portfolioHealth (setPortfolio p s) = portfolioHealth s"
proof -
  show "calculatePortfolioHealth p = Inl TypeError"
    using assms by (simp add: calculatePortfolioHealth_def proto_distribution)
  then show "portfolioHealth (setPortfolio p s) = portfolioHealth s"
    by (simp add: setPortfolio_def)
qed

lemma protoOne_throws:
  "investments protoOne \<noteq> []" "singleProtocol protoOne"
  "totalInvested protoOne = reduce_sum inv_amount (investments protoOne)"
  "diversificationOf protoOne = PInf"
  "diversificationResult protoOne = Inl TypeError"
proof -
  show "investments protoOne \<noteq> []" by (simp add: sample_investments(3))
  show "singleProtocol protoOne"
    by (simp add: singleProtocol_def size_distinct [symmetric] sample_sizes)
  show "totalInvested protoOne = reduce_sum inv_amount (investments protoOne)"
    by (simp add: protoOne_def addInvestment_def aggregate_def Let_def)
  show "diversificationOf protoOne = PInf" by (rule sample_scores)
  show "diversificationResult protoOne = Inl TypeError"
    by (rule diversificationResult_thrown) (simp_all add: sample_distributions, simp add: sample_investments)
qed

end
